theory Spec2Isabelle
  imports Main "HOL-Library.AList"
begin

section \<open>Python values\<close>

text \<open>
  The module \<^verbatim>\<open>cvpysdk/recovery_targets.py\<close> works on the values that
  \<^verbatim>\<open>response.json()\<close> returns and on the arguments its callers pass: \<^verbatim>\<open>None\<close>,
  booleans, integers, strings, lists and dictionaries with string keys. A dictionary is an
  association list in insertion order; looking a key up takes the first pair with that key.
  A character is a code point below 256. Floating-point numbers are left out.
\<close>

datatype pyval =
    PNone
  | PBool bool
  | PInt int
  | PStr string
  | PList "pyval list"
  | PDict "(string \<times> pyval) list"

text \<open>
  Modelled from the spec: the class \<^verbatim>\<open>SDKException\<close> of \<^verbatim>\<open>cvpysdk.exception\<close>, which the
  module imports and which is not part of it. An \<^verbatim>\<open>SDKException(module, code, message)\<close>
  is kept as the three arguments it is raised with (the message is empty when none is
  given). The other exceptions are the interpreter's; \<^verbatim>\<open>KeyError\<close> carries the missing key.
\<close>

datatype error =
    SDKException string string string
  | KeyError pyval
  | TypeError
  | IndexError
  | AttributeError

text \<open>
  Modelled from the spec: its three error kinds, which the module raises as
  \<^verbatim>\<open>SDKException('Response', ...)\<close> (\<^verbatim>\<open>ResponseError\<close>: code 101 when the transport reports
  failure, code 102 when the body is empty or lacks the expected key),
  \<^verbatim>\<open>SDKException('Target', '101')\<close> (\<^verbatim>\<open>InvalidInputError\<close>: the name is not a string) and
  \<^verbatim>\<open>SDKException('RecoveryTarget', '102', ...)\<close> (\<^verbatim>\<open>NotFoundError\<close>: no target of that name).
\<close>

fun is_ResponseError :: "error \<Rightarrow> bool" where
  "is_ResponseError (SDKException m c msg) = (m = ''Response'')"
| "is_ResponseError (KeyError k) = False"
| "is_ResponseError TypeError = False"
| "is_ResponseError IndexError = False"
| "is_ResponseError AttributeError = False"

fun is_InvalidInputError :: "error \<Rightarrow> bool" where
  "is_InvalidInputError (SDKException m c msg) = (m = ''Target'' \<and> c = ''101'')"
| "is_InvalidInputError (KeyError k) = False"
| "is_InvalidInputError TypeError = False"
| "is_InvalidInputError IndexError = False"
| "is_InvalidInputError AttributeError = False"

fun is_NotFoundError :: "error \<Rightarrow> bool" where
  "is_NotFoundError (SDKException m c msg) = (m = ''RecoveryTarget'' \<and> c = ''102'')"
| "is_NotFoundError (KeyError k) = False"
| "is_NotFoundError TypeError = False"
| "is_NotFoundError IndexError = False"
| "is_NotFoundError AttributeError = False"

subsection \<open>Truth value, \<^verbatim>\<open>str.lower\<close>, \<^verbatim>\<open>str\<close> and \<^verbatim>\<open>repr\<close>\<close>

text \<open>\<^verbatim>\<open>bool(v)\<close>: what \<^verbatim>\<open>if v:\<close> and \<^verbatim>\<open>v and w\<close> test.\<close>

fun truthy :: "pyval \<Rightarrow> bool" where
  "truthy PNone = False"
| "truthy (PBool b) = b"
| "truthy (PInt i) = (i \<noteq> 0)"
| "truthy (PStr s) = (s \<noteq> [])"
| "truthy (PList xs) = (xs \<noteq> [])"
| "truthy (PDict kvs) = (kvs \<noteq> [])"

text \<open>
  \<^verbatim>\<open>str.lower\<close> on code points below 256: the letters A to Z and the accented capitals
  192 to 222 (without the multiplication sign 215) move up by 32.
\<close>

definition lower_char :: "char \<Rightarrow> char" where
  "lower_char c =
     (let n = (of_char c :: nat)
      in if (65 \<le> n \<and> n \<le> 90) \<or> (192 \<le> n \<and> n \<le> 222 \<and> n \<noteq> 215)
         then char_of (n + 32) else c)"

definition lower :: "string \<Rightarrow> string" where
  "lower s = map lower_char s"

text \<open>
  \<^verbatim>\<open>str\<close> of an integer: the decimal digits, written from the last one backwards, with a
  minus sign in front of a negative number.
\<close>

definition digit_char :: "nat \<Rightarrow> char" where
  "digit_char d = ''0123456789abcdef'' ! d"

fun decimal_digits :: "nat \<Rightarrow> string \<Rightarrow> string" where
  "decimal_digits n acc =
     (if n < 10 then digit_char n # acc
      else decimal_digits (n div 10) (digit_char (n mod 10) # acc))"

declare decimal_digits.simps [simp del]

definition str_int :: "int \<Rightarrow> string" where
  "str_int i = (if 0 \<le> i then decimal_digits (nat i) [] else CHR ''-'' # decimal_digits (nat (- i)) [])"

text \<open>\<^verbatim>\<open>', '.join(parts)\<close>.\<close>

fun join_comma :: "string list \<Rightarrow> string" where
  "join_comma [] = []"
| "join_comma [x] = x"
| "join_comma (x # y # zs) = x @ '', '' @ join_comma (y # zs)"

text \<open>
  \<^verbatim>\<open>repr\<close> of a string: the quote is the apostrophe unless the string holds an apostrophe
  and no double quote; the backslash, the chosen quote, tab, newline and carriage return are
  escaped, and a code point that is not printable is written as a two-digit hexadecimal escape.
\<close>

definition printable :: "char \<Rightarrow> bool" where
  "printable c =
     (let n = (of_char c :: nat)
      in (32 \<le> n \<and> n < 127) \<or> (161 \<le> n \<and> n \<noteq> 173))"

definition escape_char :: "char \<Rightarrow> char \<Rightarrow> string" where
  "escape_char q c =
     (if c = CHR 0x5C then [CHR 0x5C, CHR 0x5C]
      else if c = q then [CHR 0x5C, q]
      else if c = CHR 0x09 then [CHR 0x5C, CHR ''t'']
      else if c = CHR 0x0A then [CHR 0x5C, CHR ''n'']
      else if c = CHR 0x0D then [CHR 0x5C, CHR ''r'']
      else if printable c then [c]
      else [CHR 0x5C, CHR ''x'', digit_char (of_char c div 16), digit_char (of_char c mod 16)])"

definition repr_str :: "string \<Rightarrow> string" where
  "repr_str s =
     (let q = (if CHR 0x27 \<in> set s \<and> CHR 0x22 \<notin> set s then CHR 0x22 else CHR 0x27)
      in q # concat (map (escape_char q) s) @ [q])"

primrec py_repr :: "pyval \<Rightarrow> string" where
  "py_repr PNone = ''None''"
| "py_repr (PBool b) = (if b then ''True'' else ''False'')"
| "py_repr (PInt i) = str_int i"
| "py_repr (PStr s) = repr_str s"
| "py_repr (PList xs) = ''['' @ join_comma (map py_repr xs) @ '']''"
| "py_repr (PDict kvs) =
     ''{'' @ join_comma (map (\<lambda>(k, r). repr_str k @ '': '' @ r) (map (map_prod id py_repr) kvs)) @ ''}''"

text \<open>\<^verbatim>\<open>str(v)\<close>, which is also what an f-string field \<^verbatim>\<open>{v}\<close> renders.\<close>

fun py_str :: "pyval \<Rightarrow> string" where
  "py_str (PStr s) = s"
| "py_str v = py_repr v"

subsection \<open>Looking into a value\<close>

text \<open>\<^verbatim>\<open>needle in hay\<close> for two strings: \<^verbatim>\<open>needle\<close> occurs as a contiguous part.\<close>

fun starts_with :: "string \<Rightarrow> string \<Rightarrow> bool" where
  "starts_with [] hay = True"
| "starts_with (c # cs) [] = False"
| "starts_with (c # cs) (d # ds) = (c = d \<and> starts_with cs ds)"

fun occurs_in :: "string \<Rightarrow> string \<Rightarrow> bool" where
  "occurs_in needle [] = (needle = [])"
| "occurs_in needle (d # ds) = (starts_with needle (d # ds) \<or> occurs_in needle ds)"

text \<open>
  \<^verbatim>\<open>key in v\<close> for a string \<^verbatim>\<open>key\<close>: a key of a dictionary, an element of a list, a part of
  a string; \<^verbatim>\<open>TypeError\<close> on a value that is not a container.
\<close>

fun py_in :: "string \<Rightarrow> pyval \<Rightarrow> error + bool" where
  "py_in k (PDict kvs) = Inr (k \<in> set (map fst kvs))"
| "py_in k (PList xs) = Inr (PStr k \<in> set xs)"
| "py_in k (PStr s) = Inr (occurs_in k s)"
| "py_in k PNone = Inl TypeError"
| "py_in k (PBool b) = Inl TypeError"
| "py_in k (PInt i) = Inl TypeError"

text \<open>\<^verbatim>\<open>v.get(key, default)\<close>: only a dictionary has the method.\<close>

fun py_get :: "string \<Rightarrow> pyval \<Rightarrow> pyval \<Rightarrow> error + pyval" where
  "py_get k d (PDict kvs) = (case map_of kvs k of Some v \<Rightarrow> Inr v | None \<Rightarrow> Inr d)"
| "py_get k d PNone = Inl AttributeError"
| "py_get k d (PBool b) = Inl AttributeError"
| "py_get k d (PInt i) = Inl AttributeError"
| "py_get k d (PStr s) = Inl AttributeError"
| "py_get k d (PList xs) = Inl AttributeError"

text \<open>\<^verbatim>\<open>v[key]\<close> with a string key.\<close>

fun py_item :: "string \<Rightarrow> pyval \<Rightarrow> error + pyval" where
  "py_item k (PDict kvs) = (case map_of kvs k of Some v \<Rightarrow> Inr v | None \<Rightarrow> Inl (KeyError (PStr k)))"
| "py_item k PNone = Inl TypeError"
| "py_item k (PBool b) = Inl TypeError"
| "py_item k (PInt i) = Inl TypeError"
| "py_item k (PStr s) = Inl TypeError"
| "py_item k (PList xs) = Inl TypeError"

text \<open>\<^verbatim>\<open>v[0]\<close>.\<close>

fun py_first :: "pyval \<Rightarrow> error + pyval" where
  "py_first (PList []) = Inl IndexError"
| "py_first (PList (x # xs)) = Inr x"
| "py_first (PStr []) = Inl IndexError"
| "py_first (PStr (c # cs)) = Inr (PStr [c])"
| "py_first (PDict kvs) = Inl (KeyError (PInt 0))"
| "py_first PNone = Inl TypeError"
| "py_first (PBool b) = Inl TypeError"
| "py_first (PInt i) = Inl TypeError"

text \<open>
  \<^verbatim>\<open>for x in v\<close>: the elements of a list, the keys of a dictionary, the characters of a
  string; \<^verbatim>\<open>TypeError\<close> otherwise.
\<close>

fun py_iter :: "pyval \<Rightarrow> error + pyval list" where
  "py_iter (PList xs) = Inr xs"
| "py_iter (PDict kvs) = Inr (map PStr (rev (remdups (rev (map fst kvs)))))"
| "py_iter (PStr s) = Inr (map (\<lambda>c. PStr [c]) s)"
| "py_iter PNone = Inl TypeError"
| "py_iter (PBool b) = Inl TypeError"
| "py_iter (PInt i) = Inl TypeError"

text \<open>\<^verbatim>\<open>v.lower()\<close>: only a string has the method.\<close>

fun py_lower :: "pyval \<Rightarrow> error + string" where
  "py_lower (PStr s) = Inr (lower s)"
| "py_lower PNone = Inl AttributeError"
| "py_lower (PBool b) = Inl AttributeError"
| "py_lower (PInt i) = Inl AttributeError"
| "py_lower (PList xs) = Inl AttributeError"
| "py_lower (PDict kvs) = Inl AttributeError"

section \<open>The collaborators: transport, service table, response wrapper\<close>

text \<open>
  The HTTP session, the table of endpoints and the response wrapper belong to the surrounding
  SDK. \<^verbatim>\<open>response.json()\<close> and \<^verbatim>\<open>response.text\<close> are the two readings of a response
  the module takes; a body that the transport's library cannot decode, so that
  \<^verbatim>\<open>response.json()\<close> itself raises there, is outside the module and is not modelled.
  \<^verbatim>\<open>make_request(method, url)\<close> returns a flag and a response; the reply
  may depend on the requests sent before, so the model hands it the log of those requests
  and appends the new one. \<^verbatim>\<open>GET_RECOVERY_TARGET\<close> is the endpoint template already
  applied (with \<^verbatim>\<open>%\<close>) to a target id.
\<close>

record response =
  response_json :: pyval
  response_text :: string

type_synonym log = "(string \<times> string) list"

record commcell =
  make_request :: "log \<Rightarrow> string \<Rightarrow> string \<Rightarrow> bool \<times> response"
  GET_ALL_RECOVERY_TARGETS :: string
  GET_RECOVERY_TARGET :: "string \<Rightarrow> string"
  update_response :: "string \<Rightarrow> string"

definition request :: "commcell \<Rightarrow> log \<Rightarrow> string \<Rightarrow> string \<Rightarrow> (bool \<times> response) \<times> log" where
  "request cc lg method url = (make_request cc lg method url, lg @ [(method, url)])"

section \<open>RecoveryTargets: the catalog of targets\<close>

text \<open>
  The catalog's dictionary maps a lower-cased name to an id in string form. Storing under a
  key that is already there replaces the value in place; a new key goes to the end
  (\<^const>\<open>AList.update\<close>).
\<close>

type_synonym targets = "(string \<times> string) list"

record RecoveryTargets =
  commcell_object :: commcell
  recovery_targets :: "targets option"

text \<open>The body of the \<^verbatim>\<open>for\<close> loop of \<^verbatim>\<open>_get_recovery_targets\<close>, for one record.\<close>

definition add_recovery_target :: "targets \<Rightarrow> pyval \<Rightarrow> error + targets" where
  "add_recovery_target recovery_target_dict recoveryTarget =
     (case py_item ''applicationType'' recoveryTarget of
        Inl e \<Rightarrow> Inl e
      | Inr applicationType \<Rightarrow>
          if applicationType \<noteq> PStr ''CLEAN_ROOM'' then
            (case py_item ''name'' recoveryTarget of
               Inl e \<Rightarrow> Inl e
             | Inr name \<Rightarrow>
                 (case py_lower name of
                    Inl e \<Rightarrow> Inl e
                  | Inr temp_name \<Rightarrow>
                      (case py_item ''id'' recoveryTarget of
                         Inl e \<Rightarrow> Inl e
                       | Inr ident \<Rightarrow>
                           Inr (AList.update temp_name (py_str ident) recovery_target_dict))))
          else Inr recovery_target_dict)"

text \<open>The loop: the records in order, stopping at the first exception.\<close>

fun add_recovery_targets :: "pyval list \<Rightarrow> targets \<Rightarrow> error + targets" where
  "add_recovery_targets [] recovery_target_dict = Inr recovery_target_dict"
| "add_recovery_targets (recoveryTarget # rest) recovery_target_dict =
     (case add_recovery_target recovery_target_dict recoveryTarget of
        Inl e \<Rightarrow> Inl e
      | Inr d \<Rightarrow> add_recovery_targets rest d)"

text \<open>What \<^verbatim>\<open>_get_recovery_targets\<close> does with the reply to its request.\<close>

definition recovery_targets_of_reply :: "commcell \<Rightarrow> bool \<times> response \<Rightarrow> error + targets" where
  "recovery_targets_of_reply cc reply =
     (let flag = fst reply; response = snd reply in
      if flag then
        if truthy (response_json response) then
          (case py_in ''recoveryTargets'' (response_json response) of
             Inl e \<Rightarrow> Inl e
           | Inr present \<Rightarrow>
               if present then
                 (case py_item ''recoveryTargets'' (response_json response) of
                    Inl e \<Rightarrow> Inl e
                  | Inr listed \<Rightarrow>
                      (case py_iter listed of
                         Inl e \<Rightarrow> Inl e
                       | Inr records \<Rightarrow> add_recovery_targets records []))
               else Inl (SDKException ''Response'' ''102'' []))
        else Inl (SDKException ''Response'' ''102'' [])
      else Inl (SDKException ''Response'' ''101'' (update_response cc (response_text response))))"

definition get_recovery_targets :: "RecoveryTargets \<Rightarrow> log \<Rightarrow> (error + targets) \<times> log" where
  "get_recovery_targets self lg =
     (let (reply, lg') = request (commcell_object self) lg ''GET''
                           (GET_ALL_RECOVERY_TARGETS (commcell_object self))
      in (recovery_targets_of_reply (commcell_object self) reply, lg'))"

text \<open>
  \<^verbatim>\<open>refresh\<close>: the assignment to \<^verbatim>\<open>self._recovery_targets\<close> takes place only when
  \<^verbatim>\<open>_get_recovery_targets\<close> returns. The first component is the exception raised, if any.
\<close>

definition RecoveryTargets_refresh ::
  "RecoveryTargets \<Rightarrow> log \<Rightarrow> error option \<times> RecoveryTargets \<times> log" where
  "RecoveryTargets_refresh self lg =
     (case get_recovery_targets self lg of
        (Inl e, lg') \<Rightarrow> (Some e, self, lg')
      | (Inr d, lg') \<Rightarrow> (None, self\<lparr>recovery_targets := Some d\<rparr>, lg'))"

definition RecoveryTargets_init :: "commcell \<Rightarrow> log \<Rightarrow> (error + RecoveryTargets) \<times> log" where
  "RecoveryTargets_init cc lg =
     (case RecoveryTargets_refresh \<lparr>commcell_object = cc, recovery_targets = None\<rparr> lg of
        (Some e, self, lg') \<Rightarrow> (Inl e, lg')
      | (None, self, lg') \<Rightarrow> (Inr self, lg'))"

definition all_targets :: "RecoveryTargets \<Rightarrow> targets option" where
  "all_targets self = recovery_targets self"

text \<open>
  \<^verbatim>\<open>has_recovery_target\<close> returns \<^verbatim>\<open>self._recovery_targets and name.lower() in
  self._recovery_targets\<close>: the dictionary itself when it is \<^verbatim>\<open>None\<close> or empty, the
  membership otherwise.
\<close>

definition has_recovery_target :: "RecoveryTargets \<Rightarrow> pyval \<Rightarrow> error + pyval" where
  "has_recovery_target self target_name =
     (case target_name of
        PStr s \<Rightarrow>
          (case recovery_targets self of
             None \<Rightarrow> Inr PNone
           | Some d \<Rightarrow> if d = [] then Inr (PDict []) else Inr (PBool (lower s \<in> set (map fst d))))
      | _ \<Rightarrow> Inl (SDKException ''Target'' ''101'' []))"

text \<open>\<^verbatim>\<open>d[key]\<close> on the catalog's dictionary, which is \<^verbatim>\<open>None\<close> before the first load.\<close>

definition targets_item :: "targets option \<Rightarrow> string \<Rightarrow> error + string" where
  "targets_item d k =
     (case d of
        None \<Rightarrow> Inl TypeError
      | Some kvs \<Rightarrow> (case map_of kvs k of None \<Rightarrow> Inl (KeyError (PStr k)) | Some v \<Rightarrow> Inr v))"

section \<open>RecoveryTarget: one target\<close>

text \<open>
  The name, the id and the endpoint of a target are strings assigned once by the constructor
  and are fields of the record. Every other attribute is an entry of the object's attribute
  dictionary \<open>attrs\<close>, because the object may lack one: reading an attribute that was never
  assigned raises \<^verbatim>\<open>AttributeError\<close>.
\<close>

type_synonym obj = "string \<rightharpoonup> pyval"

record RecoveryTarget =
  target_commcell :: commcell
  recovery_target_name :: string
  recovery_target_id :: string
  RECOVERY_TARGET_API :: string
  attrs :: obj

definition getattr :: "string \<Rightarrow> obj \<Rightarrow> error + pyval" where
  "getattr a t = (case t a of None \<Rightarrow> Inl AttributeError | Some v \<Rightarrow> Inr v)"

subsection \<open>Statements\<close>

text \<open>
  A statement takes the attributes and returns the exception it raised, if any, with the
  attributes as they are at that point: what was assigned before an exception stays assigned.
\<close>

type_synonym stmt = "obj \<Rightarrow> error option \<times> obj"

text \<open>\<^verbatim>\<open>self.a = e\<close>.\<close>

definition assign :: "string \<Rightarrow> (obj \<Rightarrow> error + pyval) \<Rightarrow> stmt" where
  "assign a e t = (case e t of Inl err \<Rightarrow> (Some err, t) | Inr v \<Rightarrow> (None, t(a \<mapsto> v)))"

text \<open>\<^verbatim>\<open>x = e\<close> for a local variable \<^verbatim>\<open>x\<close>, followed by the statement that uses it.\<close>

definition with_local :: "(obj \<Rightarrow> error + pyval) \<Rightarrow> (pyval \<Rightarrow> stmt) \<Rightarrow> stmt" where
  "with_local e k t = (case e t of Inl err \<Rightarrow> (Some err, t) | Inr v \<Rightarrow> k v t)"

definition skip :: stmt where
  "skip t = (None, t)"

text \<open>Statements one after the other; the first exception ends the block.\<close>

fun block :: "stmt list \<Rightarrow> stmt" where
  "block [] t = (None, t)"
| "block (s # ss) t = (case s t of (Some e, t') \<Rightarrow> (Some e, t') | (None, t') \<Rightarrow> block ss t')"

subsection \<open>Reading the properties document\<close>

text \<open>
  One link of a chain such as \<^verbatim>\<open>.get('securityOptions', {}).get('securityGroups', [{}])[0]\<close>:
  \<open>Get k d\<close> is \<^verbatim>\<open>.get(k, d)\<close>, \<open>Item k\<close> is \<^verbatim>\<open>[k]\<close>, \<open>First\<close> is \<^verbatim>\<open>[0]\<close>.
\<close>

datatype step = Get string pyval | Item string | First

fun walk :: "step list \<Rightarrow> pyval \<Rightarrow> error + pyval" where
  "walk [] v = Inr v"
| "walk (Get k d # ps) v = (case py_get k d v of Inl e \<Rightarrow> Inl e | Inr w \<Rightarrow> walk ps w)"
| "walk (Item k # ps) v = (case py_item k v of Inl e \<Rightarrow> Inl e | Inr w \<Rightarrow> walk ps w)"
| "walk (First # ps) v = (case py_first v of Inl e \<Rightarrow> Inl e | Inr w \<Rightarrow> walk ps w)"

text \<open>A chain that starts at \<^verbatim>\<open>self._recovery_target_properties\<close>.\<close>

definition props :: "step list \<Rightarrow> obj \<Rightarrow> error + pyval" where
  "props path t =
     (case getattr ''_recovery_target_properties'' t of Inl e \<Rightarrow> Inl e | Inr p \<Rightarrow> walk path p)"

text \<open>\<^verbatim>\<open>[x[k] for x in xs]\<close>.\<close>

fun items_of :: "string \<Rightarrow> pyval list \<Rightarrow> error + pyval list" where
  "items_of k [] = Inr []"
| "items_of k (x # xs) =
     (case py_item k x of
        Inl e \<Rightarrow> Inl e
      | Inr v \<Rightarrow> (case items_of k xs of Inl e \<Rightarrow> Inl e | Inr vs \<Rightarrow> Inr (v # vs)))"

definition comprehension :: "string \<Rightarrow> error + pyval \<Rightarrow> error + pyval" where
  "comprehension k source =
     (case source of
        Inl e \<Rightarrow> Inl e
      | Inr v \<Rightarrow>
          (case py_iter v of
             Inl e \<Rightarrow> Inl e
           | Inr xs \<Rightarrow> (case items_of k xs of Inl e \<Rightarrow> Inl e | Inr vs \<Rightarrow> Inr (PList vs))))"

subsection \<open>\<^verbatim>\<open>_set_policy_type\<close>\<close>

definition set_policy_type :: "pyval \<Rightarrow> stmt" where
  "set_policy_type policy_type =
     (if policy_type = PStr ''AMAZON'' then assign ''_policy_type'' (\<lambda>t. Inr (PInt 1))
      else if policy_type = PStr ''MICROSOFT'' then assign ''_policy_type'' (\<lambda>t. Inr (PInt 2))
      else if policy_type = PStr ''AZURE_RESOURCE_MANAGER'' then assign ''_policy_type'' (\<lambda>t. Inr (PInt 7))
      else if policy_type \<in> set [PStr ''VMW_BACKUP_LABTEMPLATE'', PStr ''VMW_LIVEMOUNT'']
        then assign ''_policy_type'' (\<lambda>t. Inr (PInt 13))
      else assign ''_policy_type'' (\<lambda>t. Inr (PInt (- 1))))"

subsection \<open>\<^verbatim>\<open>_get_recovery_target_properties\<close>\<close>

text \<open>
  The six lines that render the expiration time; the source has the same six lines in the
  AWS, the Azure and the VMware branch.
\<close>

definition expiration_lines :: stmt where
  "expiration_lines =
     with_local (props [Get ''liveMountOptions'' (PDict []), Get ''expirationTime'' (PDict []),
                        Get ''minutesRetainUntil'' (PStr [])]) (\<lambda>expiry_hours.
     with_local (props [Get ''liveMountOptions'' (PDict []), Get ''expirationTime'' (PDict []),
                        Get ''daysRetainUntil'' (PStr [])]) (\<lambda>expiry_days.
       if truthy expiry_hours
         then assign ''_expiration_time'' (\<lambda>t. Inr (PStr (py_str expiry_hours @ '' hours'')))
       else if truthy expiry_days
         then assign ''_expiration_time'' (\<lambda>t. Inr (PStr (py_str expiry_days @ '' days'')))
       else skip))"

text \<open>Lines 329 to 339: the fields every target has, and the policy type.\<close>

definition common_lines :: "pyval \<Rightarrow> stmt list" where
  "common_lines document =
     [assign ''_recovery_target_properties'' (\<lambda>t. Inr document),
      assign ''_application_type'' (props [Get ''entity'' (PDict []), Get ''applicationType'' PNone]),
      assign ''_destination_hypervisor''
        (props [Get ''entity'' (PDict []), Get ''destinationHypervisor'' (PDict []), Get ''name'' PNone]),
      assign ''_vm_suffix'' (props [Get ''vmDisplayName'' (PDict []), Get ''suffix'' (PStr [])]),
      assign ''_vm_prefix'' (props [Get ''vmDisplayName'' (PDict []), Get ''prefix'' (PStr [])]),
      assign ''_access_node'' (props [Get ''accessNode'' (PDict []), Get ''name'' (PStr [])]),
      assign ''_access_node_client_group'' (\<lambda>t.
        case props [Get ''accessNode'' (PDict []), Get ''type'' (PStr [])] t of
          Inl e \<Rightarrow> Inl e
        | Inr node_type \<Rightarrow> if node_type = PStr ''Group'' then getattr ''_access_node'' t else Inr (PStr [])),
      assign ''_users'' (props [Get ''securityOptions'' (PDict []), Get ''users'' (PList [])]),
      assign ''_user_groups'' (props [Get ''securityOptions'' (PDict []), Get ''userGroups'' (PList [])]),
      with_local (props [Item ''entity'', Get ''policyType'' (PStr [])]) (\<lambda>policy_type.
        set_policy_type policy_type)]"

text \<open>Lines 342 to 359: \<^verbatim>\<open>self._policy_type == 1\<close>.\<close>

definition aws_lines :: "stmt list" where
  "aws_lines =
     [assign ''_availability_zone'' (props [Get ''cloudDestinationOptions'' (PDict []), Get ''availabilityZone'' PNone]),
      assign ''_volume_type'' (props [Get ''cloudDestinationOptions'' (PDict []), Get ''volumeType'' PNone]),
      assign ''_encryption_key''
        (props [Get ''cloudDestinationOptions'' (PDict []), Get ''encryptionKey'' (PDict []), Get ''name'' PNone]),
      assign ''_encryption_key_id''
        (props [Get ''cloudDestinationOptions'' (PDict []), Get ''encryptionKey'' (PDict []), Get ''id'' PNone]),
      assign ''_iam_role_name''
        (props [Get ''destinationOptions'' (PDict []), Get ''iamRole'' (PDict []), Get ''name'' PNone]),
      assign ''_iam_role_id''
        (props [Get ''destinationOptions'' (PDict []), Get ''iamRole'' (PDict []), Get ''id'' PNone]),
      assign ''_destination_network''
        (props [Get ''networkOptions'' (PDict []), Get ''networkCard'' (PDict []), Get ''networkDisplayName'' PNone]),
      assign ''_security_group''
        (props [Get ''securityOptions'' (PDict []), Get ''securityGroups'' (PList [PDict []]), First,
                Get ''name'' (PStr [])]),
      assign ''_instance_type''
        (props [Get ''cloudDestinationOptions'' (PDict []), Get ''instanceTypes'' (PList [PStr ''Auto'']), First]),
      expiration_lines,
      assign ''_test_virtual_network''
        (props [Get ''networkOptions'' (PDict []), Get ''cloudNetwork'' (PDict []), Get ''label'' PNone]),
      assign ''_test_security_group''
        (props [Get ''securityOptions'' (PDict []), Get ''testSecurityGroups'' (PList [PDict []]), First,
                Get ''name'' (PStr [])]),
      assign ''_test_vm_size''
        (props [Get ''cloudDestinationOptions'' (PDict []), Get ''vmInstanceType'' (PStr ''Auto'')])]"

text \<open>Lines 362 to 364: \<^verbatim>\<open>self._policy_type == 2\<close>.\<close>

definition hyperv_lines :: "stmt list" where
  "hyperv_lines =
     [assign ''_vm_folder'' (props [Get ''destinationOptions'' (PDict []), Get ''dataStore'' (PStr [])]),
      assign ''_destination_network''
        (props [Get ''networkOptions'' (PDict []), Get ''networkCard'' (PDict []), Get ''networkNames'' PNone,
                First]),
      assign ''_destination_host''
        (props [Get ''destinationOptions'' (PDict []), Get ''destinationHost'' (PStr [])])]"

text \<open>Lines 366 to 385: \<^verbatim>\<open>self._policy_type == 7\<close>.\<close>

definition azure_lines :: "stmt list" where
  "azure_lines =
     [assign ''_resource_group''
        (props [Get ''destinationOptions'' (PDict []), Get ''destinationHost'' (PStr [])]),
      assign ''_region''
        (props [Get ''cloudDestinationOptions'' (PDict []), Get ''region'' (PDict []), Get ''name'' PNone]),
      assign ''_availability_zone'' (props [Get ''cloudDestinationOptions'' (PDict []), Get ''availabilityZone'' PNone]),
      assign ''_storage_account'' (props [Get ''destinationOptions'' (PDict []), Get ''dataStore'' (PStr [])]),
      assign ''_vm_size'' (props [Get ''cloudDestinationOptions'' (PDict []), Get ''vmInstanceType'' PNone]),
      assign ''_disk_type'' (props [Get ''cloudDestinationOptions'' (PDict []), Get ''volumeType'' PNone]),
      assign ''_virtual_network''
        (props [Get ''networkOptions'' (PDict []), Get ''networkCard'' (PDict []), Get ''networkDisplayName'' PNone]),
      assign ''_security_group''
        (props [Get ''securityOptions'' (PDict []), Get ''securityGroups'' (PList [PDict []]), First,
                Get ''name'' (PStr [])]),
      assign ''_create_public_ip'' (props [Get ''cloudDestinationOptions'' (PDict []), Get ''publicIP'' PNone]),
      assign ''_restore_as_managed_vm''
        (props [Get ''cloudDestinationOptions'' (PDict []), Get ''restoreAsManagedVM'' PNone]),
      expiration_lines,
      assign ''_test_virtual_network''
        (props [Get ''networkOptions'' (PDict []), Get ''cloudNetwork'' (PDict []), Get ''label'' PNone]),
      assign ''_test_vm_size''
        (props [Get ''amazonPolicy'' (PDict []), Get ''vmInstanceTypes'' (PList [PDict []]), First,
                Get ''vmInstanceTypeName'' (PStr [])])]"

text \<open>Lines 387 to 411: \<^verbatim>\<open>self._policy_type == 13\<close>.\<close>

definition vmware_lines :: "stmt list" where
  "vmware_lines =
     [assign ''_destination_host''
        (props [Get ''destinationOptions'' (PDict []), Get ''destinationHost'' (PStr [])]),
      assign ''_datastore'' (props [Get ''destinationOptions'' (PDict []), Get ''dataStore'' (PStr [])]),
      assign ''_resource_pool'' (props [Get ''destinationOptions'' (PDict []), Get ''resourcePoolPath'' (PStr [])]),
      assign ''_vm_folder'' (props [Get ''destinationOptions'' (PDict []), Get ''vmFolder'' (PStr [])]),
      assign ''_destination_network''
        (props [Get ''networkOptions'' (PDict []), Get ''networkCard'' (PDict []),
                Get ''destinationNetworks'' (PList [])]),
      assign ''_vm_storage_policy'' (props [Get ''vmStoragePolicyName'' PNone]),
      expiration_lines,
      with_local (props [Get ''mediaAgent'' (PDict [])]) (\<lambda>media_agent.
        if truthy media_agent
          then assign ''_failover_ma'' (props [Item ''mediaAgent'', Item ''clientName''])
        else skip),
      assign ''_isolated_network''
        (props [Get ''virtualLabOptions'' (PDict []), Get ''configureIsolatedNetwork'' PNone]),
      assign ''_no_of_cpu'' (props [Get ''maxCores'' PNone]),
      assign ''_no_of_vm'' (props [Get ''maxVMQuota'' PNone]),
      assign ''_iso_paths'' (\<lambda>t. comprehension ''isoPath'' (props [Get ''isoInfo'' (PList [])] t)),
      with_local (props [Get ''associatedClientGroup'' PNone]) (\<lambda>client_group.
        if truthy client_group
          then assign ''_server_group'' (props [Item ''associatedClientGroup'', Item ''clientGroupName''])
        else skip)]"

text \<open>The \<^verbatim>\<open>if\<close>/\<^verbatim>\<open>elif\<close> chain on \<^verbatim>\<open>self._policy_type\<close>, lines 341 to 411.\<close>

definition policy_lines :: stmt where
  "policy_lines =
     with_local (getattr ''_policy_type'') (\<lambda>policy.
       if policy = PInt 1 then block aws_lines
       else if policy = PInt 2 then block hyperv_lines
       else if policy = PInt 7 then block azure_lines
       else if policy = PInt 13 then block vmware_lines
       else skip)"

text \<open>What \<^verbatim>\<open>_get_recovery_target_properties\<close> does with the reply to its request.\<close>

definition properties_of_reply :: "commcell \<Rightarrow> bool \<times> response \<Rightarrow> stmt" where
  "properties_of_reply cc reply t =
     (let flag = fst reply; response = snd reply in
      if flag then
        if truthy (response_json response) then
          (case py_in ''entity'' (response_json response) of
             Inl e \<Rightarrow> (Some e, t)
           | Inr present \<Rightarrow>
               if present then block [block (common_lines (response_json response)), policy_lines] t
               else (Some (SDKException ''Response'' ''102'' []), t))
        else (Some (SDKException ''Response'' ''102'' []), t)
      else (Some (SDKException ''Response'' ''101'' (update_response cc (response_text response))), t))"

definition get_recovery_target_properties ::
  "RecoveryTarget \<Rightarrow> log \<Rightarrow> error option \<times> RecoveryTarget \<times> log" where
  "get_recovery_target_properties self lg =
     (let (reply, lg') = request (target_commcell self) lg ''GET'' (RECOVERY_TARGET_API self);
          (raised, t') = properties_of_reply (target_commcell self) reply (attrs self)
      in (raised, self\<lparr>attrs := t'\<rparr>, lg'))"

definition RecoveryTarget_refresh ::
  "RecoveryTarget \<Rightarrow> log \<Rightarrow> error option \<times> RecoveryTarget \<times> log" where
  "RecoveryTarget_refresh self lg = get_recovery_target_properties self lg"

subsection \<open>The constructor\<close>

text \<open>Lines 245 to 289: the attributes \<^verbatim>\<open>__init__\<close> creates, with their defaults.\<close>

definition initial_attrs :: obj where
  "initial_attrs = map_of
     [(''_recovery_target_properties'', PNone),
      (''_policy_type'', PNone),
      (''_application_type'', PNone),
      (''_destination_hypervisor'', PNone),
      (''_access_node'', PNone),
      (''_access_node_client_group'', PNone),
      (''_users'', PList []),
      (''_user_groups'', PList []),
      (''_vm_prefix'', PStr []),
      (''_vm_suffix'', PStr []),
      (''_destination_host'', PNone),
      (''_vm_storage_policy'', PNone),
      (''_datastore'', PNone),
      (''_resource_pool'', PNone),
      (''_destination_network'', PNone),
      (''_expiration_time'', PNone),
      (''_failover_ma'', PNone),
      (''_isolated_network'', PNone),
      (''_no_of_cpu'', PNone),
      (''_no_of_vm'', PNone),
      (''_iso_paths'', PList []),
      (''_resource_group'', PNone),
      (''_region'', PNone),
      (''_availability_zone'', PNone),
      (''_storage_account'', PNone),
      (''_vm_size'', PNone),
      (''_disk_type'', PNone),
      (''_virtual_network'', PNone),
      (''_vm_folder'', PNone),
      (''_security_group'', PNone),
      (''_create_public_ip'', PNone),
      (''_restore_as_managed_vm'', PNone),
      (''_test_virtual_network'', PNone),
      (''_test_security_group'', PNone),
      (''_test_vm_size'', PNone),
      (''_volume_type'', PNone),
      (''_encryption_key'', PNone),
      (''_iam_role_id'', PNone),
      (''_iam_role_name'', PNone),
      (''_instance_type'', PNone)]"

text \<open>
  \<^verbatim>\<open>_get_recovery_target_id\<close>: a new catalog is built, which sends the list request, and
  the name is looked up in its dictionary with \<^verbatim>\<open>[]\<close>.
\<close>

definition get_recovery_target_id :: "commcell \<Rightarrow> string \<Rightarrow> log \<Rightarrow> (error + string) \<times> log" where
  "get_recovery_target_id cc name lg =
     (case RecoveryTargets_init cc lg of
        (Inl e, lg') \<Rightarrow> (Inl e, lg')
      | (Inr target, lg') \<Rightarrow> (targets_item (all_targets target) name, lg'))"

definition RecoveryTarget_init ::
  "commcell \<Rightarrow> pyval \<Rightarrow> pyval \<Rightarrow> log \<Rightarrow> (error + RecoveryTarget) \<times> log" where
  "RecoveryTarget_init cc name ident lg =
     (case py_lower name of
        Inl e \<Rightarrow> (Inl e, lg)
      | Inr lowered \<Rightarrow>
          (case (if truthy ident then (Inr (py_str ident), lg)
                 else get_recovery_target_id cc lowered lg) of
             (Inl e, lg') \<Rightarrow> (Inl e, lg')
           | (Inr target_id, lg') \<Rightarrow>
               (case RecoveryTarget_refresh
                       \<lparr>target_commcell = cc,
                        recovery_target_name = lowered,
                        recovery_target_id = target_id,
                        RECOVERY_TARGET_API = GET_RECOVERY_TARGET cc target_id,
                        attrs = initial_attrs\<rparr> lg' of
                  (Some e, self, lg'') \<Rightarrow> (Inl e, lg'')
                | (None, self, lg'') \<Rightarrow> (Inr self, lg''))))"

subsection \<open>The accessors\<close>

text \<open>Each property returns one attribute; the table gives the attribute behind each name.\<close>

definition property_attribute :: "(string \<times> string) list" where
  "property_attribute =
     [(''policy_type'', ''_policy_type''),
      (''application_type'', ''_application_type''),
      (''destination_hypervisor'', ''_destination_hypervisor''),
      (''access_node'', ''_access_node''),
      (''access_node_client_group'', ''_access_node_client_group''),
      (''vm_prefix'', ''_vm_prefix''),
      (''vm_suffix'', ''_vm_suffix''),
      (''destination_host'', ''_destination_host''),
      (''vm_storage_policy'', ''_vm_storage_policy''),
      (''datastore'', ''_datastore''),
      (''resource_pool'', ''_resource_pool''),
      (''vm_folder'', ''_vm_folder''),
      (''destination_network'', ''_destination_network''),
      (''expiration_time'', ''_expiration_time''),
      (''failover_ma'', ''_failover_ma''),
      (''isolated_network'', ''_isolated_network''),
      (''iso_path'', ''_iso_paths''),
      (''server_group'', ''_server_group''),
      (''no_of_cpu'', ''_no_of_cpu''),
      (''no_of_vm'', ''_no_of_vm''),
      (''resource_group'', ''_resource_group''),
      (''region'', ''_region''),
      (''availability_zone'', ''_availability_zone''),
      (''storage_account'', ''_storage_account''),
      (''vm_size'', ''_vm_size''),
      (''disk_type'', ''_disk_type''),
      (''virtual_network'', ''_virtual_network''),
      (''security_group'', ''_security_group''),
      (''create_public_ip'', ''_create_public_ip''),
      (''restore_as_managed_vm'', ''_restore_as_managed_vm''),
      (''test_virtual_network'', ''_test_virtual_network''),
      (''test_security_group'', ''_test_security_group''),
      (''test_vm_size'', ''_test_vm_size''),
      (''volume_type'', ''_volume_type''),
      (''encryption_key'', ''_encryption_key''),
      (''iam_role_id'', ''_iam_role_id''),
      (''iam_role_name'', ''_iam_role_name''),
      (''instance_type'', ''_instance_type'')]"

text \<open>
  Reading a property by name. \<^verbatim>\<open>security_user_names\<close> is computed from \<^verbatim>\<open>_users\<close>; a
  name that is no property of the class raises \<^verbatim>\<open>AttributeError\<close>.
\<close>

definition read_property :: "string \<Rightarrow> RecoveryTarget \<Rightarrow> error + pyval" where
  "read_property p self =
     (if p = ''recovery_target_id'' then Inr (PStr (recovery_target_id self))
      else if p = ''recovery_target_name'' then Inr (PStr (recovery_target_name self))
      else if p = ''security_user_names'' then comprehension ''userName'' (getattr ''_users'' (attrs self))
      else (case map_of property_attribute p of
              None \<Rightarrow> Inl AttributeError
            | Some a \<Rightarrow> getattr a (attrs self)))"

definition server_group :: "RecoveryTarget \<Rightarrow> error + pyval" where
  "server_group self = getattr ''_server_group'' (attrs self)"

definition policy_type :: "RecoveryTarget \<Rightarrow> error + pyval" where
  "policy_type self = getattr ''_policy_type'' (attrs self)"


section \<open>RecoveryTargets.get\<close>

text \<open>
  \<^verbatim>\<open>get\<close> lower-cases the name, asks \<^verbatim>\<open>has_recovery_target\<close>, and builds the target with
  the id read from \<^verbatim>\<open>all_targets\<close>.
\<close>

definition RecoveryTargets_get ::
  "RecoveryTargets \<Rightarrow> pyval \<Rightarrow> log \<Rightarrow> (error + RecoveryTarget) \<times> log" where
  "RecoveryTargets_get self name lg =
     (case name of
        PStr s \<Rightarrow>
          (let lowered = lower s in
           case has_recovery_target self (PStr lowered) of
             Inl e \<Rightarrow> (Inl e, lg)
           | Inr found \<Rightarrow>
               if truthy found then
                 (case targets_item (all_targets self) lowered of
                    Inl e \<Rightarrow> (Inl e, lg)
                  | Inr target_id \<Rightarrow>
                      RecoveryTarget_init (commcell_object self) (PStr lowered) (PStr target_id) lg)
               else (Inl (SDKException ''RecoveryTarget'' ''102''
                            (''No target exists with name: '' @ lowered)), lg))
      | _ \<Rightarrow> (Inl (SDKException ''Target'' ''101'' []), lg))"

section \<open>Notions used in the statements\<close>



text \<open>
  A record of the list response: a dictionary with \<^verbatim>\<open>applicationType\<close>, a string
  \<^verbatim>\<open>name\<close> and an \<^verbatim>\<open>id\<close>. A record is listed when its application type is not
  \<^verbatim>\<open>"CLEAN_ROOM"\<close>.
\<close>

definition record_field :: "string \<Rightarrow> pyval \<Rightarrow> pyval option" where
  "record_field k r = (case r of PDict kvs \<Rightarrow> map_of kvs k | _ \<Rightarrow> None)"

definition is_recovery_target_record :: "pyval \<Rightarrow> bool" where
  "is_recovery_target_record r =
     (record_field ''applicationType'' r \<noteq> None
      \<and> (case record_field ''name'' r of Some (PStr n) \<Rightarrow> True | _ \<Rightarrow> False)
      \<and> record_field ''id'' r \<noteq> None)"

definition record_name :: "pyval \<Rightarrow> string" where
  "record_name r = (case record_field ''name'' r of Some (PStr n) \<Rightarrow> n | _ \<Rightarrow> [])"

definition record_id :: "pyval \<Rightarrow> pyval" where
  "record_id r = (case record_field ''id'' r of Some i \<Rightarrow> i | None \<Rightarrow> PNone)"

definition listed :: "pyval \<Rightarrow> bool" where
  "listed r = (record_field ''applicationType'' r \<noteq> Some (PStr ''CLEAN_ROOM''))"

text \<open>The exception an operation ended with, if any.\<close>

definition outcome :: "error + 'a \<Rightarrow> error option" where
  "outcome r = (case r of Inl e \<Rightarrow> Some e | Inr v \<Rightarrow> None)"



text \<open>A statement that leaves the attribute \<open>f\<close> as it is, whatever the state.\<close>

definition keeps :: "string \<Rightarrow> stmt \<Rightarrow> bool" where
  "keeps f s = (\<forall>t. snd (s t) f = t f)"

text \<open>
  The attributes assigned by the common lines and by each branch of
  \<^verbatim>\<open>_get_recovery_target_properties\<close>.
\<close>

definition common_attributes :: "string list" where
  "common_attributes =
     [''_recovery_target_properties'', ''_application_type'', ''_destination_hypervisor'',
      ''_vm_suffix'', ''_vm_prefix'', ''_access_node'', ''_access_node_client_group'',
      ''_users'', ''_user_groups'', ''_policy_type'']"

definition aws_attributes :: "string list" where
  "aws_attributes =
     [''_availability_zone'', ''_volume_type'', ''_encryption_key'', ''_encryption_key_id'',
      ''_iam_role_name'', ''_iam_role_id'', ''_destination_network'', ''_security_group'',
      ''_instance_type'', ''_expiration_time'', ''_test_virtual_network'',
      ''_test_security_group'', ''_test_vm_size'']"

definition hyperv_attributes :: "string list" where
  "hyperv_attributes = [''_vm_folder'', ''_destination_network'', ''_destination_host'']"

definition azure_attributes :: "string list" where
  "azure_attributes =
     [''_resource_group'', ''_region'', ''_availability_zone'', ''_storage_account'', ''_vm_size'',
      ''_disk_type'', ''_virtual_network'', ''_security_group'', ''_create_public_ip'',
      ''_restore_as_managed_vm'', ''_expiration_time'', ''_test_virtual_network'', ''_test_vm_size'']"

definition vmware_attributes :: "string list" where
  "vmware_attributes =
     [''_destination_host'', ''_datastore'', ''_resource_pool'', ''_vm_folder'',
      ''_destination_network'', ''_vm_storage_policy'', ''_expiration_time'', ''_failover_ma'',
      ''_isolated_network'', ''_no_of_cpu'', ''_no_of_vm'', ''_iso_paths'', ''_server_group'']"

text \<open>
  The specification's table from the \<^verbatim>\<open>policyType\<close> value to the numeric code, and the
  field group that belongs to a code.
\<close>

definition spec_policy_code :: "pyval \<Rightarrow> int" where
  "spec_policy_code p =
     (if p = PStr ''AMAZON'' then 1
      else if p = PStr ''MICROSOFT'' then 2
      else if p = PStr ''AZURE_RESOURCE_MANAGER'' then 7
      else if p = PStr ''VMW_BACKUP_LABTEMPLATE'' \<or> p = PStr ''VMW_LIVEMOUNT'' then 13
      else - 1)"

definition spec_field_group :: "int \<Rightarrow> string list" where
  "spec_field_group code =
     (if code = 1 then aws_attributes
      else if code = 2 then hyperv_attributes
      else if code = 7 then azure_attributes
      else if code = 13 then vmware_attributes
      else [])"

text \<open>The target after \<^verbatim>\<open>_get_recovery_target_properties\<close> has run.\<close>

definition refreshed :: "RecoveryTarget \<Rightarrow> log \<Rightarrow> RecoveryTarget" where
  "refreshed self lg = fst (snd (get_recovery_target_properties self lg))"

text \<open>
  The value at a path of keys of the document, when every key on the path is present, and
  the same when that value is moreover truthy.
\<close>

fun document_value :: "string list \<Rightarrow> pyval \<Rightarrow> pyval option" where
  "document_value [] v = Some v"
| "document_value (k # ks) (PDict kvs) =
     (case map_of kvs k of None \<Rightarrow> None | Some w \<Rightarrow> document_value ks w)"
| "document_value (k # ks) v = None"



section \<open>Example servers, catalogs and targets\<close>

text \<open>
  A server that answers the list request with one reply and every other request with
  another.
\<close>

definition example_commcell :: "bool \<Rightarrow> pyval \<Rightarrow> bool \<Rightarrow> pyval \<Rightarrow> commcell" where
  "example_commcell list_flag listing detail_flag detail =
     \<lparr>make_request = (\<lambda>lg method url.
        if url = ''/RecoveryTargets''
        then (list_flag, \<lparr>response_json = listing, response_text = ''list failed''\<rparr>)
        else (detail_flag, \<lparr>response_json = detail, response_text = ''detail failed''\<rparr>)),
      GET_ALL_RECOVERY_TARGETS = ''/RecoveryTargets'',
      GET_RECOVERY_TARGET = (\<lambda>i. ''/RecoveryTargets/'' @ i),
      update_response = (\<lambda>s. ''Response: '' @ s)\<rparr>"

text \<open>The list response of the specification's scenario, and one with two names that differ in case only.\<close>

definition regular_record :: pyval where
  "regular_record = PDict [(''id'', PInt 1), (''name'', PStr ''Tgt1''), (''applicationType'', PStr ''REGULAR'')]"

definition clean_room_record :: pyval where
  "clean_room_record = PDict [(''id'', PInt 2), (''name'', PStr ''CR''), (''applicationType'', PStr ''CLEAN_ROOM'')]"

definition example_listing :: pyval where
  "example_listing = PDict [(''recoveryTargets'', PList [regular_record, clean_room_record])]"

definition duplicate_listing :: pyval where
  "duplicate_listing =
     PDict [(''recoveryTargets'', PList
       [PDict [(''id'', PInt 1), (''name'', PStr ''Tgt''), (''applicationType'', PStr ''REGULAR'')],
        PDict [(''id'', PInt 2), (''name'', PStr ''tgt''), (''applicationType'', PStr ''REGULAR'')]])]"

text \<open>A catalog object before its first load.\<close>

definition new_catalog :: "pyval \<Rightarrow> RecoveryTargets" where
  "new_catalog listing =
     \<lparr>commcell_object = example_commcell True listing True PNone, recovery_targets = None\<rparr>"

text \<open>A catalog that was loaded once and whose server has since stopped answering.\<close>

definition loaded_catalog :: RecoveryTargets where
  "loaded_catalog = \<lparr>commcell_object = example_commcell False PNone True PNone,
                     recovery_targets = Some [(''tgt1'', ''1'')]\<rparr>"


text \<open>A target as the constructor leaves it before the first load, and two detail documents.\<close>

definition new_target :: "pyval \<Rightarrow> RecoveryTarget" where
  "new_target document =
     \<lparr>target_commcell = example_commcell True example_listing True document,
      recovery_target_name = ''tgt1'',
      recovery_target_id = ''1'',
      RECOVERY_TARGET_API = ''/RecoveryTargets/1'',
      attrs = initial_attrs\<rparr>"

definition amazon_document :: pyval where
  "amazon_document = PDict [(''entity'', PDict [(''policyType'', PStr ''AMAZON'')])]"

definition vmware_document :: pyval where
  "vmware_document =
     PDict [(''entity'', PDict [(''policyType'', PStr ''VMW_LIVEMOUNT'')]),
            (''destinationOptions'', PDict [(''destinationHost'', PStr ''esx01'')]),
            (''liveMountOptions'', PDict [(''expirationTime'', PDict [(''daysRetainUntil'', PInt 2)])])]"

text \<open>
  A list response whose only record has the empty string as id, the catalog loaded from it,
  and the catalog loaded from the scenario's list response.
\<close>

definition empty_id_listing :: pyval where
  "empty_id_listing =
     PDict [(''recoveryTargets'', PList
       [PDict [(''id'', PStr []), (''name'', PStr ''x''), (''applicationType'', PStr ''REGULAR'')]])]"

definition empty_id_catalog :: RecoveryTargets where
  "empty_id_catalog =
     \<lparr>commcell_object = example_commcell True empty_id_listing True amazon_document,
      recovery_targets = Some [(''x'', [])]\<rparr>"

definition scenario_catalog :: RecoveryTargets where
  "scenario_catalog =
     \<lparr>commcell_object = example_commcell True example_listing True amazon_document,
      recovery_targets = Some [(''tgt1'', ''1'')]\<rparr>"

text \<open>
  Detail documents: a Hyper-V target without \<^verbatim>\<open>networkOptions\<close>, and two AWS targets, one
  with an empty \<^verbatim>\<open>securityGroups\<close> list and one with an empty \<^verbatim>\<open>instanceTypes\<close> list.
\<close>

definition hyperv_document :: pyval where
  "hyperv_document = PDict [(''entity'', PDict [(''policyType'', PStr ''MICROSOFT'')])]"

definition aws_no_security_groups_document :: pyval where
  "aws_no_security_groups_document =
     PDict [(''entity'', PDict [(''policyType'', PStr ''AMAZON'')]),
            (''securityOptions'', PDict [(''securityGroups'', PList [])])]"

definition aws_no_instance_types_document :: pyval where
  "aws_no_instance_types_document =
     PDict [(''entity'', PDict [(''policyType'', PStr ''AMAZON'')]),
            (''cloudDestinationOptions'', PDict [(''instanceTypes'', PList [])])]"

section \<open>Properties\<close>

subsection \<open>No access to a value raises a \<^verbatim>\<open>ResponseError\<close>\<close>






































subsection \<open>When a \<^verbatim>\<open>ResponseError\<close> is raised\<close>



subsection \<open>The policy type\<close>

text \<open>
  Claim C3. \<^verbatim>\<open>_set_policy_type\<close> stores 1 for \<^verbatim>\<open>"AMAZON"\<close>, 2 for \<^verbatim>\<open>"MICROSOFT"\<close>, 7 for
  \<^verbatim>\<open>"AZURE_RESOURCE_MANAGER"\<close>, 13 for \<^verbatim>\<open>"VMW_BACKUP_LABTEMPLATE"\<close> and for
  \<^verbatim>\<open>"VMW_LIVEMOUNT"\<close>, and -1 for every other value; it never raises.
\<close>

theorem set_policy_type_table:
  "snd (set_policy_type (PStr ''AMAZON'') t) ''_policy_type'' = Some (PInt 1)
 \<and> snd (set_policy_type (PStr ''MICROSOFT'') t) ''_policy_type'' = Some (PInt 2)
 \<and> snd (set_policy_type (PStr ''AZURE_RESOURCE_MANAGER'') t) ''_policy_type'' = Some (PInt 7)
 \<and> snd (set_policy_type (PStr ''VMW_BACKUP_LABTEMPLATE'') t) ''_policy_type'' = Some (PInt 13)
 \<and> snd (set_policy_type (PStr ''VMW_LIVEMOUNT'') t) ''_policy_type'' = Some (PInt 13)
 \<and> (v \<notin> {PStr ''AMAZON'', PStr ''MICROSOFT'', PStr ''AZURE_RESOURCE_MANAGER'',
           PStr ''VMW_BACKUP_LABTEMPLATE'', PStr ''VMW_LIVEMOUNT''}
      \<longrightarrow> snd (set_policy_type v t) ''_policy_type'' = Some (PInt (- 1)))
 \<and> fst (set_policy_type v t) = None"
  by (simp add: set_policy_type_def assign_def)

theorem set_policy_type_table_witness:
  "PStr ''ORACLE'' \<notin> {PStr ''AMAZON'', PStr ''MICROSOFT'', PStr ''AZURE_RESOURCE_MANAGER'',
           PStr ''VMW_BACKUP_LABTEMPLATE'', PStr ''VMW_LIVEMOUNT''}
   \<and> snd (set_policy_type (PStr ''ORACLE'') Map.empty) ''_policy_type'' = Some (PInt (- 1))"
  using set_policy_type_table [of Map.empty "PStr ''ORACLE''"] by simp

subsection \<open>A failed refresh of the catalog\<close>

text \<open>
  Claim C10. When \<^verbatim>\<open>_get_recovery_targets\<close> raises, in whatever way, \<^verbatim>\<open>refresh\<close> raises
  the same exception and the catalog is as it was: \<^verbatim>\<open>all_targets\<close>,
  \<^verbatim>\<open>has_recovery_target\<close> and \<^verbatim>\<open>get\<close> answer as before the call.
\<close>

theorem refresh_failure_keeps_catalog:
  assumes "fst (get_recovery_targets self lg) = Inl e"
  shows "fst (RecoveryTargets_refresh self lg) = Some e
       \<and> fst (snd (RecoveryTargets_refresh self lg)) = self
       \<and> all_targets (fst (snd (RecoveryTargets_refresh self lg))) = all_targets self
       \<and> has_recovery_target (fst (snd (RecoveryTargets_refresh self lg))) name
           = has_recovery_target self name
       \<and> RecoveryTargets_get (fst (snd (RecoveryTargets_refresh self lg))) name lg2
           = RecoveryTargets_get self name lg2"
proof -
  have "fst (snd (RecoveryTargets_refresh self lg)) = self"
    using assms by (cases "get_recovery_targets self lg") (simp add: RecoveryTargets_refresh_def)
  moreover have "fst (RecoveryTargets_refresh self lg) = Some e"
    using assms by (cases "get_recovery_targets self lg") (simp add: RecoveryTargets_refresh_def)
  ultimately show ?thesis by simp
qed

theorem refresh_failure_keeps_catalog_witness:
  "fst (get_recovery_targets loaded_catalog []) = Inl (SDKException ''Response'' ''101'' ''Response: list failed'')
   \<and> fst (RecoveryTargets_refresh loaded_catalog []) = Some (SDKException ''Response'' ''101'' ''Response: list failed'')
   \<and> all_targets (fst (snd (RecoveryTargets_refresh loaded_catalog []))) = Some [(''tgt1'', ''1'')]
   \<and> has_recovery_target (fst (snd (RecoveryTargets_refresh loaded_catalog []))) (PStr ''TGT1'') = Inr (PBool True)"
proof -
  have h: "fst (get_recovery_targets loaded_catalog []) = Inl (SDKException ''Response'' ''101'' ''Response: list failed'')"
    by code_simp
  have a: "all_targets loaded_catalog = Some [(''tgt1'', ''1'')]"
    by code_simp
  have b: "has_recovery_target loaded_catalog (PStr ''TGT1'') = Inr (PBool True)"
    by code_simp
  show ?thesis
    using h a b refresh_failure_keeps_catalog [OF h, of "PStr ''TGT1''" "[]"] by simp
qed

subsection \<open>The catalog's dictionary\<close>

lemma add_recovery_target_record:
  assumes "is_recovery_target_record r"
  shows "add_recovery_target d r =
           Inr (if listed r then AList.update (lower (record_name r)) (py_str (record_id r)) d else d)"
proof (cases r)
  case (PDict kvs)
  with assms show ?thesis
    by (auto simp: add_recovery_target_def is_recovery_target_record_def record_field_def
                   record_name_def record_id_def listed_def
             split: option.splits pyval.splits)
qed (use assms in \<open>simp_all add: is_recovery_target_record_def record_field_def\<close>)

lemma add_recovery_targets_total:
  "\<forall>r\<in>set rs. is_recovery_target_record r \<Longrightarrow> \<exists>d'. add_recovery_targets rs d = Inr d'"
  by (induction rs arbitrary: d) (auto simp: add_recovery_target_record)

lemma add_recovery_targets_keys:
  assumes "\<forall>r\<in>set rs. is_recovery_target_record r" and "add_recovery_targets rs d = Inr d'"
  shows "fst ` set d' = fst ` set d \<union> {lower (record_name r) | r. r \<in> set rs \<and> listed r}"
  using assms
proof (induction rs arbitrary: d)
  case Nil
  then show ?case by simp
next
  case (Cons r rs)
  let ?d1 = "if listed r then AList.update (lower (record_name r)) (py_str (record_id r)) d else d"
  have step: "add_recovery_target d r = Inr ?d1"
    using Cons.prems(1) by (simp add: add_recovery_target_record)
  then have rest: "add_recovery_targets rs ?d1 = Inr d'"
    using Cons.prems(2) by simp
  have "fst ` set d' = fst ` set ?d1 \<union> {lower (record_name x) | x. x \<in> set rs \<and> listed x}"
    using Cons.IH[OF _ rest] Cons.prems(1) by simp
  moreover have "fst ` set ?d1 = fst ` set d \<union> (if listed r then {lower (record_name r)} else {})"
    by (simp add: dom_update)
  ultimately show ?case by auto
qed


lemma add_recovery_targets_untouched:
  assumes "\<forall>r\<in>set rs. is_recovery_target_record r"
      and "\<forall>r\<in>set rs. listed r \<longrightarrow> lower (record_name r) \<noteq> k"
      and "add_recovery_targets rs d = Inr d'"
  shows "map_of d' k = map_of d k"
  using assms
proof (induction rs arbitrary: d)
  case Nil
  then show ?case by simp
next
  case (Cons r rs)
  let ?d1 = "if listed r then AList.update (lower (record_name r)) (py_str (record_id r)) d else d"
  have step: "add_recovery_target d r = Inr ?d1"
    using Cons.prems(1) by (simp add: add_recovery_target_record)
  then have rest: "add_recovery_targets rs ?d1 = Inr d'"
    using Cons.prems(3) by simp
  have "map_of d' k = map_of ?d1 k"
    using Cons.IH[OF _ _ rest] Cons.prems(1,2) by simp
  also have "\<dots> = map_of d k"
    using Cons.prems(2) by (auto simp: update_conv')
  finally show ?case .
qed

lemma add_recovery_targets_entries:
  assumes "\<forall>r\<in>set rs. is_recovery_target_record r"
      and "add_recovery_targets rs d = Inr d'"
      and "map_of d' k = Some v"
  shows "map_of d k = Some v
       \<or> (\<exists>r\<in>set rs. listed r \<and> lower (record_name r) = k \<and> py_str (record_id r) = v)"
  using assms
proof (induction rs arbitrary: d)
  case Nil
  then show ?case by simp
next
  case (Cons r rs)
  let ?d1 = "if listed r then AList.update (lower (record_name r)) (py_str (record_id r)) d else d"
  have step: "add_recovery_target d r = Inr ?d1"
    using Cons.prems(1) by (simp add: add_recovery_target_record)
  then have rest: "add_recovery_targets rs ?d1 = Inr d'"
    using Cons.prems(2) by simp
  from Cons.IH[OF _ rest Cons.prems(3)] Cons.prems(1)
  consider "map_of ?d1 k = Some v"
    | "\<exists>x\<in>set rs. listed x \<and> lower (record_name x) = k \<and> py_str (record_id x) = v"
    by auto
  then show ?case
  proof cases
    case 1
    then show ?thesis by (auto simp: update_conv' split: if_splits)
  next
    case 2
    then show ?thesis by auto
  qed
qed

lemma add_recovery_targets_append:
  "add_recovery_targets (xs @ ys) d =
     (case add_recovery_targets xs d of Inl e \<Rightarrow> Inl e | Inr d1 \<Rightarrow> add_recovery_targets ys d1)"
  by (induction xs arbitrary: d) (auto split: sum.splits)

lemma add_recovery_targets_last_wins:
  assumes "\<forall>x\<in>set (pre @ r # post). is_recovery_target_record x"
      and "listed r"
      and "\<forall>x\<in>set post. listed x \<longrightarrow> lower (record_name x) \<noteq> lower (record_name r)"
      and "add_recovery_targets (pre @ r # post) d = Inr d'"
  shows "map_of d' (lower (record_name r)) = Some (py_str (record_id r))"
proof -
  obtain d1 where pre: "add_recovery_targets pre d = Inr d1"
    using add_recovery_targets_total[of pre d] assms(1) by auto
  let ?d2 = "AList.update (lower (record_name r)) (py_str (record_id r)) d1"
  have "add_recovery_target d1 r = Inr ?d2"
    using assms(1,2) by (simp add: add_recovery_target_record)
  then have post: "add_recovery_targets post ?d2 = Inr d'"
    using assms(4) pre by (simp add: add_recovery_targets_append)
  have "map_of d' (lower (record_name r)) = map_of ?d2 (lower (record_name r))"
    using add_recovery_targets_untouched[OF _ assms(3) post] assms(1) by simp
  then show ?thesis by (simp add: update_conv')
qed

text \<open>
  Claim C1, as amended. For a successful list response whose body is a dictionary with the key
  \<^verbatim>\<open>recoveryTargets\<close> holding a list of records, \<^verbatim>\<open>_get_recovery_targets\<close> returns a
  dictionary whose keys are exactly the lower-cased names of the listed records (those whose
  application type is not \<^verbatim>\<open>"CLEAN_ROOM"\<close>); every entry is the lower-cased name and
  the id in string form of a listed record; and a listed record that no later listed record
  shares its lower-cased name with is in the dictionary with its own id. Of several listed
  records with one lower-cased name the last one's id is kept.
\<close>

theorem get_recovery_targets_mapping:
  assumes "make_request (commcell_object self) lg ''GET''
             (GET_ALL_RECOVERY_TARGETS (commcell_object self)) = (True, response)"
      and "response_json response = PDict body"
      and "map_of body ''recoveryTargets'' = Some (PList records)"
      and "\<forall>r\<in>set records. is_recovery_target_record r"
  shows "\<exists>d. fst (get_recovery_targets self lg) = Inr d
           \<and> (\<forall>k. k \<in> fst ` set d \<longleftrightarrow> (\<exists>r\<in>set records. listed r \<and> lower (record_name r) = k))
           \<and> (\<forall>k v. map_of d k = Some v \<longrightarrow>
                 (\<exists>r\<in>set records. listed r \<and> lower (record_name r) = k \<and> py_str (record_id r) = v))
           \<and> (\<forall>pre r post. records = pre @ r # post \<and> listed r
                 \<and> (\<forall>x\<in>set post. listed x \<longrightarrow> lower (record_name x) \<noteq> lower (record_name r))
                 \<longrightarrow> map_of d (lower (record_name r)) = Some (py_str (record_id r)))"
proof -
  obtain d where d: "add_recovery_targets records [] = Inr d"
    using add_recovery_targets_total[OF assms(4)] by blast
  have key: "''recoveryTargets'' \<in> fst ` set body"
    using assms(3) by (metis domI dom_map_of_conv_image_fst)
  then have "body \<noteq> []" by auto
  with key have "recovery_targets_of_reply (commcell_object self) (True, response) = Inr d"
    using assms(2,3) d by (simp add: recovery_targets_of_reply_def)
  then have res: "fst (get_recovery_targets self lg) = Inr d"
    using assms(1) by (simp add: get_recovery_targets_def request_def)
  have keys: "\<forall>k. k \<in> fst ` set d \<longleftrightarrow> (\<exists>r\<in>set records. listed r \<and> lower (record_name r) = k)"
    using add_recovery_targets_keys[OF assms(4) d] by auto
  have entries: "\<forall>k v. map_of d k = Some v \<longrightarrow>
                 (\<exists>r\<in>set records. listed r \<and> lower (record_name r) = k \<and> py_str (record_id r) = v)"
    using add_recovery_targets_entries[OF assms(4) d] by auto
  have last: "\<forall>pre r post. records = pre @ r # post \<and> listed r
                 \<and> (\<forall>x\<in>set post. listed x \<longrightarrow> lower (record_name x) \<noteq> lower (record_name r))
                 \<longrightarrow> map_of d (lower (record_name r)) = Some (py_str (record_id r))"
    using add_recovery_targets_last_wins[of _ _ _ "[]" d] assms(4) d by blast
  show ?thesis using res keys entries last by blast
qed

theorem get_recovery_targets_mapping_witness:
  "make_request (commcell_object (new_catalog example_listing)) [] ''GET''
     (GET_ALL_RECOVERY_TARGETS (commcell_object (new_catalog example_listing)))
     = (True, \<lparr>response_json = example_listing, response_text = ''list failed''\<rparr>)
   \<and> is_recovery_target_record regular_record
   \<and> is_recovery_target_record clean_room_record
   \<and> (\<exists>d. fst (get_recovery_targets (new_catalog example_listing) []) = Inr d
         \<and> map_of d ''tgt1'' = Some ''1'' \<and> ''cr'' \<notin> fst ` set d)"
proof -
  let ?response = "\<lparr>response_json = example_listing, response_text = ''list failed''\<rparr>"
  have h1: "make_request (commcell_object (new_catalog example_listing)) [] ''GET''
              (GET_ALL_RECOVERY_TARGETS (commcell_object (new_catalog example_listing)))
            = (True, ?response)"
    by (simp add: new_catalog_def example_commcell_def)
  have h2: "response_json ?response = PDict [(''recoveryTargets'', PList [regular_record, clean_room_record])]"
    by (simp add: example_listing_def)
  have h3: "map_of [(''recoveryTargets'', PList [regular_record, clean_room_record])] ''recoveryTargets''
            = Some (PList [regular_record, clean_room_record])"
    by simp
  have h4: "\<forall>r\<in>set [regular_record, clean_room_record]. is_recovery_target_record r"
    by (simp add: is_recovery_target_record_def record_field_def regular_record_def clean_room_record_def)
  have regular: "listed regular_record" "lower (record_name regular_record) = ''tgt1''"
    "py_str (record_id regular_record) = ''1''"
    by code_simp+
  have clean: "\<not> listed clean_room_record"
    by code_simp
  from get_recovery_targets_mapping [OF h1 h2 h3 h4] obtain d where
    res: "fst (get_recovery_targets (new_catalog example_listing) []) = Inr d"
    and keys: "\<forall>k. k \<in> fst ` set d \<longleftrightarrow>
                 (\<exists>r\<in>set [regular_record, clean_room_record]. listed r \<and> lower (record_name r) = k)"
    and last: "\<forall>pre r post. [regular_record, clean_room_record] = pre @ r # post \<and> listed r
                 \<and> (\<forall>x\<in>set post. listed x \<longrightarrow> lower (record_name x) \<noteq> lower (record_name r))
                 \<longrightarrow> map_of d (lower (record_name r)) = Some (py_str (record_id r))"
    by blast
  have "map_of d (lower (record_name regular_record)) = Some (py_str (record_id regular_record))"
    using last regular(1) clean
    by (metis append_Nil empty_iff empty_set set_ConsD)
  then have one: "map_of d ''tgt1'' = Some ''1''"
    using regular by simp
  have "''cr'' \<notin> fst ` set d"
    using keys regular clean by auto
  moreover have "is_recovery_target_record regular_record"
    and "is_recovery_target_record clean_room_record"
    using h4 by simp_all
  ultimately show ?thesis using h1 res one by blast
qed


text \<open>
  As stated, with every listed record in the dictionary under its own id, claim C1 fails
  for two listed records whose names differ in case only: the second assignment replaces the
  first.
\<close>

theorem get_recovery_targets_duplicate_names:
  "fst (get_recovery_targets (new_catalog duplicate_listing) []) = Inr [(''tgt'', ''2'')]
   \<and> listed (PDict [(''id'', PInt 1), (''name'', PStr ''Tgt''), (''applicationType'', PStr ''REGULAR'')])
   \<and> map_of [(''tgt'', ''2'')]
        (lower (record_name (PDict [(''id'', PInt 1), (''name'', PStr ''Tgt''), (''applicationType'', PStr ''REGULAR'')])))
      \<noteq> Some (py_str (record_id (PDict [(''id'', PInt 1), (''name'', PStr ''Tgt''), (''applicationType'', PStr ''REGULAR'')])))"
  by code_simp

subsection \<open>Which attributes a load assigns\<close>

lemma keeps_assign: "a \<noteq> f \<Longrightarrow> keeps f (assign a ex)"
  by (auto simp: keeps_def assign_def split: sum.splits)

lemma keeps_with_local: "(\<And>v. keeps f (k v)) \<Longrightarrow> keeps f (with_local ex k)"
  by (auto simp: keeps_def with_local_def split: sum.splits)

lemma keeps_skip: "keeps f skip"
  by (simp add: keeps_def skip_def)

lemma keeps_if: "keeps f s1 \<Longrightarrow> keeps f s2 \<Longrightarrow> keeps f (if b then s1 else s2)"
  by simp

lemma keeps_block_Nil: "keeps f (block [])"
  by (simp add: keeps_def)

lemma keeps_block_Cons: "keeps f s \<Longrightarrow> keeps f (block ss) \<Longrightarrow> keeps f (block (s # ss))"
  unfolding keeps_def
proof
  fix t
  assume s: "\<forall>t. snd (s t) f = t f" and ss: "\<forall>t. snd (block ss t) f = t f"
  show "snd (block (s # ss) t) f = t f"
  proof (cases "s t")
    case (Pair r t1)
    with s have "t1 f = t f" by (metis snd_conv)
    with Pair ss show ?thesis by (cases r) auto
  qed
qed

lemma keeps_set_policy_type: "f \<noteq> ''_policy_type'' \<Longrightarrow> keeps f (set_policy_type p)"
  by (auto simp: set_policy_type_def intro!: keeps_assign)

lemma keeps_expiration_lines: "f \<noteq> ''_expiration_time'' \<Longrightarrow> keeps f expiration_lines"
  unfolding expiration_lines_def
  by (intro keeps_with_local keeps_if keeps_assign keeps_skip) auto

lemmas keeps_intros = keeps_block_Cons keeps_block_Nil keeps_assign keeps_with_local keeps_skip
  keeps_if keeps_set_policy_type keeps_expiration_lines

lemma keeps_common_lines: "f \<notin> set common_attributes \<Longrightarrow> keeps f (block (common_lines doc))"
  unfolding common_lines_def common_attributes_def
  by (intro keeps_intros) auto

lemma keeps_aws_lines: "f \<notin> set aws_attributes \<Longrightarrow> keeps f (block aws_lines)"
  unfolding aws_lines_def aws_attributes_def
  by (intro keeps_intros) auto

lemma keeps_hyperv_lines: "f \<notin> set hyperv_attributes \<Longrightarrow> keeps f (block hyperv_lines)"
  unfolding hyperv_lines_def hyperv_attributes_def
  by (intro keeps_intros) auto

lemma keeps_azure_lines: "f \<notin> set azure_attributes \<Longrightarrow> keeps f (block azure_lines)"
  unfolding azure_lines_def azure_attributes_def
  by (intro keeps_intros) auto

lemma keeps_vmware_lines: "f \<notin> set vmware_attributes \<Longrightarrow> keeps f (block vmware_lines)"
  unfolding vmware_lines_def vmware_attributes_def
  by (intro keeps_intros) auto


lemma block_Cons_None:
  "block (s # ss) t = (None, t') \<longleftrightarrow> (\<exists>t1. s t = (None, t1) \<and> block ss t1 = (None, t'))"
  by (cases "s t") (auto split: option.splits)

lemma block_append_None:
  "block (xs @ ys) t = (None, t') \<longleftrightarrow> (\<exists>t1. block xs t = (None, t1) \<and> block ys t1 = (None, t'))"
  by (induction xs arbitrary: t) (auto simp: block_Cons_None simp del: block.simps(2))

lemma keepsD: "keeps f s \<Longrightarrow> s t = (r, t') \<Longrightarrow> t' f = t f"
  by (metis keeps_def snd_conv)

lemma set_policy_type_result:
  "set_policy_type p t = (None, t(''_policy_type'' \<mapsto> PInt (spec_policy_code p)))"
  by (simp add: set_policy_type_def spec_policy_code_def assign_def)

lemma props_document:
  "t ''_recovery_target_properties'' = Some doc \<Longrightarrow> props path t = walk path doc"
  by (simp add: props_def getattr_def)

lemma common_lines_result:
  assumes "block (common_lines doc) t = (None, t1)"
  shows "t1 ''_recovery_target_properties'' = Some doc
       \<and> (\<exists>p. walk [Item ''entity'', Get ''policyType'' (PStr [])] doc = Inr p
              \<and> t1 ''_policy_type'' = Some (PInt (spec_policy_code p)))"
proof -
  let ?mid = "butlast (tl (common_lines doc))"
  let ?last = "with_local (props [Item ''entity'', Get ''policyType'' (PStr [])]) set_policy_type"
  have shape: "common_lines doc =
      assign ''_recovery_target_properties'' (\<lambda>t. Inr doc) # ?mid @ [?last]"
    by (simp add: common_lines_def)
  have mid: "keeps ''_recovery_target_properties'' (block ?mid)"
    by (simp add: common_lines_def) (intro keeps_intros; simp)
  from assms obtain t0 tm where
    t0: "assign ''_recovery_target_properties'' (\<lambda>t. Inr doc) t = (None, t0)"
    and tm: "block ?mid t0 = (None, tm)"
    and fin: "block [?last] tm = (None, t1)"
    by (subst (asm) shape) (auto simp: block_Cons_None block_append_None simp del: block.simps(2))
  have "t0 ''_recovery_target_properties'' = Some doc"
    using t0 by (auto simp: assign_def)
  then have doc: "tm ''_recovery_target_properties'' = Some doc"
    using keepsD[OF mid tm] by simp
  from fin have "?last tm = (None, t1)"
    by (auto simp: block_Cons_None simp del: block.simps(2))
  then obtain p where p: "walk [Item ''entity'', Get ''policyType'' (PStr [])] doc = Inr p"
    and t1: "set_policy_type p tm = (None, t1)"
    using props_document[of tm doc "[Item ''entity'', Get ''policyType'' (PStr [])]"] doc
    by (auto simp: with_local_def split: sum.splits)
  from t1 have "t1 = tm(''_policy_type'' \<mapsto> PInt (spec_policy_code p))"
    by (simp add: set_policy_type_result)
  with doc p show ?thesis by auto
qed

lemma policy_lines_keeps:
  assumes "t ''_policy_type'' = Some (PInt c)" and "f \<notin> set (spec_field_group c)"
  shows "snd (policy_lines t) f = t f"
proof -
  have "keeps f (if PInt c = PInt 1 then block aws_lines
       else if PInt c = PInt 2 then block hyperv_lines
       else if PInt c = PInt 7 then block azure_lines
       else if PInt c = PInt 13 then block vmware_lines
       else skip)"
    using assms(2)
    by (auto simp: spec_field_group_def keeps_skip
             intro: keeps_aws_lines keeps_hyperv_lines keeps_azure_lines keeps_vmware_lines)
  then show ?thesis
    using assms(1) by (simp add: policy_lines_def with_local_def getattr_def keeps_def)
qed

lemma properties_of_reply_None:
  assumes "fst (properties_of_reply cc (flag, response) t) = None"
  shows "\<exists>t1. block (common_lines (response_json response)) t = (None, t1)
            \<and> policy_lines t1 = (None, snd (properties_of_reply cc (flag, response) t))"
proof -
  let ?out = "snd (properties_of_reply cc (flag, response) t)"
  have "properties_of_reply cc (flag, response) t =
          block [block (common_lines (response_json response)), policy_lines] t"
    using assms by (auto simp: properties_of_reply_def split: sum.splits if_splits)
  with assms
  have "block [block (common_lines (response_json response)), policy_lines] t = (None, ?out)"
    by (metis prod.collapse)
  then obtain t1 where one: "block (common_lines (response_json response)) t = (None, t1)"
    and "block [policy_lines] t1 = (None, ?out)"
    unfolding block_Cons_None by blast
  then obtain t2 where "policy_lines t1 = (None, t2)" and "block [] t2 = (None, ?out)"
    unfolding block_Cons_None by blast
  then have "policy_lines t1 = (None, ?out)" by simp
  with one show ?thesis by blast
qed

lemma get_recovery_target_properties_reply:
  assumes "make_request (target_commcell self) lg ''GET'' (RECOVERY_TARGET_API self) = (flag, response)"
  shows "fst (get_recovery_target_properties self lg)
           = fst (properties_of_reply (target_commcell self) (flag, response) (attrs self))"
    and "attrs (fst (snd (get_recovery_target_properties self lg)))
           = snd (properties_of_reply (target_commcell self) (flag, response) (attrs self))"
  using assms by (simp_all add: get_recovery_target_properties_def request_def split: prod.splits)


lemma load_stages:
  assumes "make_request (target_commcell self) lg ''GET'' (RECOVERY_TARGET_API self) = (flag, response)"
      and "fst (get_recovery_target_properties self lg) = None"
  shows "\<exists>t1. block (common_lines (response_json response)) (attrs self) = (None, t1)
            \<and> policy_lines t1 = (None, attrs (refreshed self lg))"
proof -
  have out: "attrs (refreshed self lg) =
             snd (properties_of_reply (target_commcell self) (flag, response) (attrs self))"
    unfolding refreshed_def using get_recovery_target_properties_reply(2)[OF assms(1)] .
  have "fst (properties_of_reply (target_commcell self) (flag, response) (attrs self)) = None"
    using get_recovery_target_properties_reply(1)[OF assms(1)] assms(2) by simp
  from properties_of_reply_None[OF this] show ?thesis
    unfolding out .
qed

lemma load_keeps:
  assumes "make_request (target_commcell self) lg ''GET'' (RECOVERY_TARGET_API self) = (flag, response)"
      and "fst (get_recovery_target_properties self lg) = None"
      and "walk [Item ''entity'', Get ''policyType'' (PStr [])] (response_json response) = Inr p"
      and "f \<notin> set common_attributes \<union> set (spec_field_group (spec_policy_code p))"
  shows "attrs (refreshed self lg) f = attrs self f"
proof -
  from load_stages[OF assms(1,2)] obtain t1 where
    common: "block (common_lines (response_json response)) (attrs self) = (None, t1)"
    and branch: "policy_lines t1 = (None, attrs (refreshed self lg))"
    by blast
  from common_lines_result[OF common] assms(3)
  have code: "t1 ''_policy_type'' = Some (PInt (spec_policy_code p))"
    by auto
  have "attrs (refreshed self lg) f = t1 f"
    using policy_lines_keeps[of t1 "spec_policy_code p" f] code assms(4) branch by simp
  also have "t1 f = attrs self f"
    using keepsD[OF keeps_common_lines common] assms(4) by simp
  finally show ?thesis .
qed





subsection \<open>The expiration time\<close>

lemma py_get_Inr:
  "py_get k d v = Inr w \<longleftrightarrow> (\<exists>kvs. v = PDict kvs \<and> w = (case map_of kvs k of Some x \<Rightarrow> x | None \<Rightarrow> d))"
  by (cases v) (auto split: option.splits)











subsection \<open>Looking a target up by name\<close>

lemma lower_char_idem: "lower_char (lower_char c) = lower_char c"
  by (auto simp: lower_char_def Let_def)

lemma lower_idem: "lower (lower s) = lower s"
  by (simp add: lower_def lower_char_idem)

lemma RecoveryTarget_init_with_id:
  assumes "i \<noteq> []"
  shows "snd (RecoveryTarget_init cc (PStr n) (PStr i) lg) = lg @ [(''GET'', GET_RECOVERY_TARGET cc i)]"
    and "fst (RecoveryTarget_init cc (PStr n) (PStr i) lg) = Inr t
           \<Longrightarrow> recovery_target_id t = i \<and> recovery_target_name t = lower n"
  using assms
  by (auto simp: RecoveryTarget_init_def RecoveryTarget_refresh_def
                 get_recovery_target_properties_def request_def
           split: prod.splits option.splits)

text \<open>
  Claim C5, as amended. \<^verbatim>\<open>RecoveryTargets.get\<close> raises \<^verbatim>\<open>SDKException('Target', '101')\<close>
  when the name is not a string. For a string it lower-cases the name; when that is no key of
  the cached dictionary (or nothing is cached) it raises
  \<^verbatim>\<open>SDKException('RecoveryTarget', '102', ...)\<close> whose message names the target. When it
  is a key and the id stored under it is not the empty string, the outcome is that of
  constructing the target with the lower-cased name and the stored id; the only request sent
  is the detail request for that id, and a target that is returned carries that id.
\<close>

theorem get_by_name:
  "((\<forall>s. name \<noteq> PStr s) \<longrightarrow>
      RecoveryTargets_get self name lg = (Inl (SDKException ''Target'' ''101'' []), lg))
   \<and> (\<forall>s. name = PStr s
          \<and> (case all_targets self of None \<Rightarrow> True | Some d \<Rightarrow> lower s \<notin> fst ` set d)
        \<longrightarrow> RecoveryTargets_get self name lg =
              (Inl (SDKException ''RecoveryTarget'' ''102''
                      (''No target exists with name: '' @ lower s)), lg))
   \<and> (\<forall>s d i. name = PStr s \<and> all_targets self = Some d \<and> map_of d (lower s) = Some i \<and> i \<noteq> []
        \<longrightarrow> RecoveryTargets_get self name lg =
              RecoveryTarget_init (commcell_object self) (PStr (lower s)) (PStr i) lg
          \<and> snd (RecoveryTargets_get self name lg) =
              lg @ [(''GET'', GET_RECOVERY_TARGET (commcell_object self) i)]
          \<and> (\<forall>t. fst (RecoveryTargets_get self name lg) = Inr t
                \<longrightarrow> recovery_target_id t = i \<and> recovery_target_name t = lower s))
   \<and> is_InvalidInputError (SDKException ''Target'' ''101'' [])
   \<and> is_NotFoundError (SDKException ''RecoveryTarget'' ''102'' message)"
proof (intro conjI allI impI)
  assume "\<forall>s. name \<noteq> PStr s"
  then show "RecoveryTargets_get self name lg = (Inl (SDKException ''Target'' ''101'' []), lg)"
    by (cases name) (simp_all add: RecoveryTargets_get_def)
next
  fix s
  assume a: "name = PStr s
      \<and> (case all_targets self of None \<Rightarrow> True | Some d \<Rightarrow> lower s \<notin> fst ` set d)"
  then have "\<exists>r. has_recovery_target self (PStr (lower s)) = Inr r \<and> \<not> truthy r"
    by (auto simp: has_recovery_target_def all_targets_def lower_idem split: option.splits)
  with a show "RecoveryTargets_get self name lg =
              (Inl (SDKException ''RecoveryTarget'' ''102''
                      (''No target exists with name: '' @ lower s)), lg)"
    by (auto simp: RecoveryTargets_get_def)
next
  fix s d i
  assume a: "name = PStr s \<and> all_targets self = Some d \<and> map_of d (lower s) = Some i \<and> i \<noteq> []"
  then have key: "lower s \<in> fst ` set d"
    by (metis domI dom_map_of_conv_image_fst)
  then have "d \<noteq> []" by auto
  with a key have "has_recovery_target self (PStr (lower s)) = Inr (PBool True)"
    by (simp add: has_recovery_target_def all_targets_def lower_idem)
  with a have eq: "RecoveryTargets_get self name lg =
              RecoveryTarget_init (commcell_object self) (PStr (lower s)) (PStr i) lg"
    by (simp add: RecoveryTargets_get_def targets_item_def)
  from a have i: "i \<noteq> []" by simp
  show "RecoveryTargets_get self name lg =
              RecoveryTarget_init (commcell_object self) (PStr (lower s)) (PStr i) lg"
    by (rule eq)
  show "snd (RecoveryTargets_get self name lg) =
              lg @ [(''GET'', GET_RECOVERY_TARGET (commcell_object self) i)]"
    unfolding eq by (rule RecoveryTarget_init_with_id(1)[OF i])
  fix t
  assume "fst (RecoveryTargets_get self name lg) = Inr t"
  then have "fst (RecoveryTarget_init (commcell_object self) (PStr (lower s)) (PStr i) lg) = Inr t"
    unfolding eq .
  from RecoveryTarget_init_with_id(2)[OF i this]
  show "recovery_target_id t = i" and "recovery_target_name t = lower s"
    by (simp_all add: lower_idem)
next
  show "is_InvalidInputError (SDKException ''Target'' ''101'' [])"
    by simp
next
  show "is_NotFoundError (SDKException ''RecoveryTarget'' ''102'' message)"
    by simp
qed

theorem get_by_name_witness:
  "all_targets scenario_catalog = Some [(''tgt1'', ''1'')]
   \<and> map_of [(''tgt1'', ''1'')] (lower ''TGT1'') = Some ''1''
   \<and> snd (RecoveryTargets_get scenario_catalog (PStr ''TGT1'') [])
       = [(''GET'', ''/RecoveryTargets/1'')]
   \<and> lower ''Nowhere'' \<notin> fst ` set [(''tgt1'', ''1'')]
   \<and> RecoveryTargets_get scenario_catalog (PStr ''Nowhere'') []
       = (Inl (SDKException ''RecoveryTarget'' ''102'' ''No target exists with name: nowhere''), [])
   \<and> RecoveryTargets_get scenario_catalog (PInt 7) []
       = (Inl (SDKException ''Target'' ''101'' []), [])"
proof -
  have a: "all_targets scenario_catalog = Some [(''tgt1'', ''1'')]"
    by (simp add: all_targets_def scenario_catalog_def)
  have l: "lower ''TGT1'' = ''tgt1''" "lower ''Nowhere'' = ''nowhere''"
    by code_simp+
  have u: "GET_RECOVERY_TARGET (commcell_object scenario_catalog) ''1'' = ''/RecoveryTargets/1''"
    by (simp add: scenario_catalog_def example_commcell_def)
  have n: "\<forall>s. PInt 7 \<noteq> PStr s" by simp
  note hit = get_by_name [of "PStr ''TGT1''" scenario_catalog "[]" "[]"]
  note miss = get_by_name [of "PStr ''Nowhere''" scenario_catalog "[]" "[]"]
  note bad = get_by_name [of "PInt 7" scenario_catalog "[]" "[]"]
  have m: "map_of [(''tgt1'', ''1'')] (lower ''TGT1'') = Some ''1''"
    using l by simp
  have "snd (RecoveryTargets_get scenario_catalog (PStr ''TGT1'') [])
       = [] @ [(''GET'', GET_RECOVERY_TARGET (commcell_object scenario_catalog) ''1'')]"
    using hit a m by blast
  then have 1: "snd (RecoveryTargets_get scenario_catalog (PStr ''TGT1'') [])
       = [(''GET'', ''/RecoveryTargets/1'')]"
    using u by simp
  have 2: "RecoveryTargets_get scenario_catalog (PStr ''Nowhere'') []
       = (Inl (SDKException ''RecoveryTarget'' ''102'' ''No target exists with name: nowhere''), [])"
    using miss a l by simp
  have 3: "RecoveryTargets_get scenario_catalog (PInt 7) []
       = (Inl (SDKException ''Target'' ''101'' []), [])"
    using bad n by simp
  show ?thesis using a l 1 2 3 by simp
qed

text \<open>
  As stated, for every key of the cached dictionary, claim C5 fails when the id stored under
  the key is the empty string: the constructor tests the id for truth, takes it as not given,
  and sends the list request again.
\<close>

theorem get_by_name_empty_id:
  "map_sum id recovery_targets
      (fst (RecoveryTargets_init (example_commcell True empty_id_listing True amazon_document) []))
     = Inr (Some [(''x'', [])])
   \<and> all_targets empty_id_catalog = Some [(''x'', [])]
   \<and> map_of [(''x'', [])] (lower ''x'') = Some ([] :: string)
   \<and> snd (RecoveryTargets_get empty_id_catalog (PStr ''x'') [])
       = [(''GET'', ''/RecoveryTargets''), (''GET'', ''/RecoveryTargets/'')]"
  by code_simp


subsection \<open>Constructing a target whose name the catalog does not have\<close>

text \<open>
  Whatever the name and the server: when the list load succeeds and the lower-cased name is
  no key of the loaded dictionary, the constructor called without an id raises \<^verbatim>\<open>KeyError\<close>.
\<close>

lemma absent_name_KeyError:
  assumes "fst (get_recovery_targets \<lparr>commcell_object = cc, recovery_targets = None\<rparr> lg) = Inr d"
      and "map_of d (lower s) = None"
      and "\<not> truthy ident"
  shows "fst (RecoveryTarget_init cc (PStr s) ident lg) = Inl (KeyError (PStr (lower s)))"
  using assms
  by (cases "get_recovery_targets \<lparr>commcell_object = cc, recovery_targets = None\<rparr> lg")
     (simp add: RecoveryTarget_init_def get_recovery_target_id_def RecoveryTargets_init_def
                RecoveryTargets_refresh_def all_targets_def targets_item_def)

text \<open>
  Claim C6. Claimed: a target constructed with a name and no id fails with the
  \<^verbatim>\<open>NotFoundError\<close> of \<^verbatim>\<open>RecoveryTargets.get\<close> when the freshly loaded catalog lacks the
  name. The constructor's \<^verbatim>\<open>_get_recovery_target_id\<close> indexes the dictionary directly, so
  the exception is \<^verbatim>\<open>KeyError\<close>, which is neither a \<^verbatim>\<open>NotFoundError\<close> nor a
  \<^verbatim>\<open>ResponseError\<close>; \<^verbatim>\<open>get\<close> on the same catalog and name raises the \<^verbatim>\<open>NotFoundError\<close>.
\<close>

theorem construct_absent_name_raises_KeyError:
  "outcome (fst (RecoveryTarget_init (example_commcell True example_listing True amazon_document)
                   (PStr ''ghost'') PNone []))
     = Some (KeyError (PStr ''ghost''))
   \<and> \<not> is_NotFoundError (KeyError (PStr ''ghost''))
   \<and> \<not> is_ResponseError (KeyError (PStr ''ghost''))
   \<and> outcome (fst (RecoveryTargets_get scenario_catalog (PStr ''ghost'') []))
     = Some (SDKException ''RecoveryTarget'' ''102'' ''No target exists with name: ghost'')"
  by code_simp

subsection \<open>Documents with missing keys or empty lists\<close>

text \<open>
  No Hyper-V document without \<^verbatim>\<open>networkOptions.networkCard.networkNames\<close> can be loaded:
  the load ends with an exception.
\<close>

lemma walk_missing_leaf:
  assumes "walk [Get a (PDict []), Get b (PDict []), Get c PNone] doc = Inr w"
      and "document_value [a, b, c] doc = None"
  shows "w = PNone"
proof -
  from assms(1) obtain u v where
    u: "py_get a (PDict []) doc = Inr u" and v: "py_get b (PDict []) u = Inr v"
    and w: "py_get c PNone v = Inr w"
    by (auto split: sum.splits)
  from u obtain kvs where doc: "doc = PDict kvs"
    and u': "u = (case map_of kvs a of Some x \<Rightarrow> x | None \<Rightarrow> PDict [])"
    unfolding py_get_Inr by blast
  from v obtain kvs1 where u1: "u = PDict kvs1"
    and v': "v = (case map_of kvs1 b of Some x \<Rightarrow> x | None \<Rightarrow> PDict [])"
    unfolding py_get_Inr by blast
  from w obtain kvs2 where v2: "v = PDict kvs2"
    and w': "w = (case map_of kvs2 c of Some x \<Rightarrow> x | None \<Rightarrow> PNone)"
    unfolding py_get_Inr by blast
  show ?thesis
    using doc u' u1 v' v2 w' assms(2)
    by (auto split: option.splits)
qed

lemma hyperv_without_network_names:
  assumes "make_request (target_commcell self) lg ''GET'' (RECOVERY_TARGET_API self) = (flag, response)"
      and "walk [Item ''entity'', Get ''policyType'' (PStr [])] (response_json response)
             = Inr (PStr ''MICROSOFT'')"
      and "document_value [''networkOptions'', ''networkCard'', ''networkNames''] (response_json response)
             = None"
  shows "fst (get_recovery_target_properties self lg) \<noteq> None"
proof
  let ?doc = "response_json response"
  let ?names = "[Get ''networkOptions'' (PDict []), Get ''networkCard'' (PDict []),
                 Get ''networkNames'' PNone]"
  assume "fst (get_recovery_target_properties self lg) = None"
  from load_stages[OF assms(1) this] obtain t1 where
    common: "block (common_lines ?doc) (attrs self) = (None, t1)"
    and branch: "policy_lines t1 = (None, attrs (refreshed self lg))"
    by blast
  from common_lines_result[OF common] assms(2)
  have doc: "t1 ''_recovery_target_properties'' = Some ?doc"
    and code: "t1 ''_policy_type'' = Some (PInt 2)"
    by (auto simp: spec_policy_code_def)
  from branch code have "block hyperv_lines t1 = (None, attrs (refreshed self lg))"
    by (simp add: policy_lines_def with_local_def getattr_def)
  then obtain t2 t3 where
    one: "assign ''_vm_folder''
            (props [Get ''destinationOptions'' (PDict []), Get ''dataStore'' (PStr [])]) t1 = (None, t2)"
    and two: "assign ''_destination_network'' (props (?names @ [First])) t2 = (None, t3)"
    unfolding hyperv_lines_def block_Cons_None by auto
  have "keeps ''_recovery_target_properties''
          (assign ''_vm_folder''
            (props [Get ''destinationOptions'' (PDict []), Get ''dataStore'' (PStr [])]))"
    by (rule keeps_assign) simp
  from keepsD[OF this one] doc have "t2 ''_recovery_target_properties'' = Some ?doc"
    by simp
  then have "props (?names @ [First]) t2 = walk (?names @ [First]) ?doc"
    by (simp add: props_def getattr_def)
  with two obtain v where v: "walk (?names @ [First]) ?doc = Inr v"
    by (auto simp: assign_def split: sum.splits)
  then obtain w where w: "walk ?names ?doc = Inr w" and first: "py_first w = Inr v"
    by (auto split: sum.splits)
  from walk_missing_leaf[OF w assms(3)] first show False
    by simp
qed

text \<open>
  Claim C7. Claimed: no missing key and no empty list makes
  \<^verbatim>\<open>_get_recovery_target_properties\<close> raise. A Hyper-V document without
  \<^verbatim>\<open>networkOptions.networkCard.networkNames\<close> raises \<^verbatim>\<open>TypeError\<close>, because \<^verbatim>\<open>.get\<close>
  is given no default there and \<^verbatim>\<open>None[0]\<close> is evaluated; an AWS document whose
  \<^verbatim>\<open>securityGroups\<close> or \<^verbatim>\<open>instanceTypes\<close> list is empty raises \<^verbatim>\<open>IndexError\<close>.
\<close>

theorem missing_network_names_raises:
  "py_in ''entity'' hyperv_document = Inr True
   \<and> fst (get_recovery_target_properties (new_target hyperv_document) []) = Some TypeError
   \<and> outcome (fst (RecoveryTarget_init (example_commcell True example_listing True hyperv_document)
                      (PStr ''Tgt1'') (PStr ''1'') []))
       = Some TypeError
   \<and> fst (get_recovery_target_properties (new_target aws_no_security_groups_document) [])
       = Some IndexError
   \<and> fst (get_recovery_target_properties (new_target aws_no_instance_types_document) [])
       = Some IndexError"
  by code_simp

subsection \<open>The \<^verbatim>\<open>server_group\<close> accessor\<close>

text \<open>
  After a load that did not take the VMware branch, a target that had no \<^verbatim>\<open>_server_group\<close>
  still has none, and the accessor raises.
\<close>

lemma server_group_unset_after_load:
  assumes "make_request (target_commcell self) lg ''GET'' (RECOVERY_TARGET_API self) = (flag, response)"
      and "fst (get_recovery_target_properties self lg) = None"
      and "walk [Item ''entity'', Get ''policyType'' (PStr [])] (response_json response) = Inr p"
      and "spec_policy_code p \<noteq> 13"
      and "attrs self ''_server_group'' = None"
  shows "server_group (refreshed self lg) = Inl AttributeError"
proof -
  have "''_server_group'' \<notin> set common_attributes \<union> set (spec_field_group (spec_policy_code p))"
    using assms(4)
    by (simp add: common_attributes_def spec_field_group_def aws_attributes_def
                  hyperv_attributes_def azure_attributes_def)
  from load_keeps[OF assms(1,2,3) this] assms(5) show ?thesis
    by (simp add: server_group_def getattr_def)
qed

text \<open>
  Claim C8. Claimed: every accessor of a constructed target returns the default of a field
  that was not populated. The constructor never creates \<^verbatim>\<open>_server_group\<close>, so on an AWS
  target, and on a VMware target whose document has no \<^verbatim>\<open>associatedClientGroup\<close>, the
  \<^verbatim>\<open>server_group\<close> accessor raises \<^verbatim>\<open>AttributeError\<close>, while \<^verbatim>\<open>vm_folder\<close> on the same
  AWS target returns \<^verbatim>\<open>None\<close>.
\<close>

theorem server_group_raises_AttributeError:
  "outcome (fst (RecoveryTarget_init (example_commcell True example_listing True amazon_document)
                   (PStr ''Tgt1'') (PStr ''1'') []))
     = None
   \<and> case_sum Inl policy_type
        (fst (RecoveryTarget_init (example_commcell True example_listing True amazon_document)
                (PStr ''Tgt1'') (PStr ''1'') []))
     = Inr (PInt 1)
   \<and> case_sum Inl server_group
        (fst (RecoveryTarget_init (example_commcell True example_listing True amazon_document)
                (PStr ''Tgt1'') (PStr ''1'') []))
     = Inl AttributeError
   \<and> case_sum Inl (read_property ''server_group'')
        (fst (RecoveryTarget_init (example_commcell True example_listing True amazon_document)
                (PStr ''Tgt1'') (PStr ''1'') []))
     = Inl AttributeError
   \<and> case_sum Inl (read_property ''vm_folder'')
        (fst (RecoveryTarget_init (example_commcell True example_listing True amazon_document)
                (PStr ''Tgt1'') (PStr ''1'') []))
     = Inr PNone
   \<and> case_sum Inl policy_type
        (fst (RecoveryTarget_init (example_commcell True example_listing True vmware_document)
                (PStr ''Tgt1'') (PStr ''1'') []))
     = Inr (PInt 13)
   \<and> case_sum Inl server_group
        (fst (RecoveryTarget_init (example_commcell True example_listing True vmware_document)
                (PStr ''Tgt1'') (PStr ''1'') []))
     = Inl AttributeError"
  by code_simp

end
